theory Spec2Isabelle
  imports Complex_Main "HOL-Library.AList" "HOL-Library.Char_ord" "HOL-Library.List_Lexorder"
begin

section \<open>The EC2 monitoring script: data model\<close>

text \<open>
  A shallow embedding of \<^verbatim>\<open>ec2_monitor.py\<close>. The script talks to three outside parties:
  CloudWatch, SNS and the file system. What they answer is an input of the model (the
  record \<open>env\<close>); what the script did to them is the state of the model (the record
  \<open>world\<close>). A Python exception is the result \<open>Raised\<close>, carrying the state reached
  when it was raised; a normal return is \<open>Returned\<close>.

  Three things are abstracted. A line of the metrics file is modelled as the JSON
  document that \<^verbatim>\<open>json.loads\<close> makes of it (or as malformed text), not as its characters,
  so \<^verbatim>\<open>json.dump\<close> followed by \<^verbatim>\<open>json.loads\<close> is the identity here. A number of a
  document is \<open>JInt\<close> when \<^verbatim>\<open>json.loads\<close> reads it as a Python int and \<open>JNum\<close> when it
  reads it as a float; a float is the real it denotes, and the model never computes with
  floats: the arithmetic of the weekly report is an input (the record \<open>arith\<close>). JSON
  booleans and the literals \<^verbatim>\<open>NaN\<close> and \<^verbatim>\<open>Infinity\<close>, which the collector never writes, are
  left out. Of the \<^verbatim>\<open>logging\<close> calls only those at level ERROR are kept.
\<close>

subsection \<open>JSON values and exceptions\<close>

datatype json =
    JNull
  | JInt int
  | JNum real
  | JStr string
  | JArr "json list"
  | JObj "(string \<times> json) list"

text \<open>A line of a text file, as \<^verbatim>\<open>json.loads\<close> sees it.\<close>

datatype line = Doc json | Malformed string

datatype exn =
    ClientError string
  | IOError string
  | KeyError string
  | IndexError string
  | TypeError string
  | JSONDecodeError string

text \<open>\<^verbatim>\<open>str(e)\<close>, as the f-strings of the script render an exception.\<close>

fun str_exn :: "exn \<Rightarrow> string" where
  "str_exn (ClientError m) = m"
| "str_exn (IOError m) = m"
| "str_exn (KeyError k) = [CHR 0x27] @ k @ [CHR 0x27]"
| "str_exn (IndexError m) = m"
| "str_exn (TypeError m) = m"
| "str_exn (JSONDecodeError m) = m"

subsection \<open>Instants and their rendering\<close>

text \<open>
  A naive \<^verbatim>\<open>datetime\<close>, as \<^verbatim>\<open>datetime.utcnow()\<close> returns it. Python keeps the fields
  within the ranges of \<open>valid_datetime\<close> (the day is bounded by 31 here, whatever the month).
\<close>

record datetime =
  year :: nat
  month :: nat
  day :: nat
  hour :: nat
  minute :: nat
  second :: nat
  microsecond :: nat

definition valid_datetime :: "datetime \<Rightarrow> bool" where
  "valid_datetime d \<longleftrightarrow>
     1 \<le> year d \<and> year d \<le> 9999 \<and> 1 \<le> month d \<and> month d \<le> 12 \<and>
     1 \<le> day d \<and> day d \<le> 31 \<and> hour d < 24 \<and> minute d < 60 \<and> second d < 60 \<and>
     microsecond d < 1000000"

text \<open>The chronological order of two instants: lexicographic on the fields.\<close>

definition dt_key :: "datetime \<Rightarrow> nat list" where
  "dt_key d = [year d, month d, day d, hour d, minute d, second d, microsecond d]"

definition dt_le :: "datetime \<Rightarrow> datetime \<Rightarrow> bool" where
  "dt_le a b \<longleftrightarrow> dt_key a \<le> dt_key b"

definition digit_char :: "nat \<Rightarrow> char" where
  "digit_char n = char_of (48 + n)"

fun dec :: "nat \<Rightarrow> string" where
  "dec n = (if n < 10 then [digit_char n] else dec (n div 10) @ [digit_char (n mod 10)])"

declare dec.simps [simp del]

text \<open>\<^verbatim>\<open>"%0wd" % n\<close>: decimal, padded with zeros on the left to at least \<open>w\<close> characters.\<close>

definition zpad :: "nat \<Rightarrow> nat \<Rightarrow> string" where
  "zpad w n = replicate (w - length (dec n)) (CHR ''0'') @ dec n"

text \<open>
  \<^verbatim>\<open>str(end_time)\<close>, which is \<^verbatim>\<open>end_time.isoformat(sep=' ')\<close>: the date, a space, the
  time, and the microseconds only when they are not zero. A naive datetime has no
  offset suffix.
\<close>

definition str_datetime :: "datetime \<Rightarrow> string" where
  "str_datetime d =
     zpad 4 (year d) @ ''-'' @ zpad 2 (month d) @ ''-'' @ zpad 2 (day d) @ '' '' @
     zpad 2 (hour d) @ '':'' @ zpad 2 (minute d) @ '':'' @ zpad 2 (second d) @
     (if microsecond d \<noteq> 0 then ''.'' @ zpad 6 (microsecond d) else [])"

subsection \<open>Configuration, providers, state\<close>

text \<open>
  \<^verbatim>\<open>config.json\<close> after \<^verbatim>\<open>json.load\<close>. The keys read with a fixed name are fields;
  \<^verbatim>\<open>config['thresholds']\<close> is read with computed keys and stays a dictionary of
  dictionaries, so that a missing key is a \<open>KeyError\<close>.
\<close>

record config =
  region :: string
  log_file :: string
  instances :: "string list"
  stats :: "string list"
  thresholds :: "string \<rightharpoonup> (string \<rightharpoonup> real)"
  email :: string
  sns_topic_name :: string
  error_topic_arn :: string
  metrics :: string
  data_file :: string

record alarm =
  AlarmName :: string
  MetricName :: string
  Namespace :: string
  Statistic :: string
  Period :: nat
  EvaluationPeriods :: nat
  Threshold :: real
  ComparisonOperator :: string
  AlarmActions :: "string list"
  Dimensions :: "(string \<times> string) list"

record publication =
  TopicArn :: string
  Subject :: string
  Message :: string

record datapoint =
  Timestamp :: datetime
  Average :: real

text \<open>
  What the outside answers during one job. A provider call that raises \<open>ClientError\<close>
  gives the error's text (\<open>Inl\<close> or \<open>Some\<close>). \<open>ClientError\<close> is the only exception of a
  provider call that the script catches and the only one modelled: any other exception
  of a call (a lost connection, a timeout) would leave the function that made the call.
  \<open>get_metric_statistics\<close> is asked for a metric name, an instance and the end of the
  window; the start of the window is five minutes before its end.
\<close>

record env =
  utcnow :: datetime
  get_metric_statistics :: "string \<Rightarrow> string \<Rightarrow> datetime \<Rightarrow> string + datapoint list"
  put_metric_alarm :: "alarm \<Rightarrow> string option"
  sns_create_topic :: "string \<Rightarrow> string + string"
  sns_subscribe :: "string \<Rightarrow> string \<Rightarrow> string option"
  sns_publish :: "publication \<Rightarrow> string option"
  open_append :: "string \<Rightarrow> string option"

text \<open>
  What the script has done so far: the files it wrote, the alarms CloudWatch accepted,
  the subscriptions SNS accepted, every call of \<^verbatim>\<open>sns.publish\<close> it made (accepted or
  not), the ERROR lines it logged and the lines it printed.
\<close>

record world =
  files :: "string \<rightharpoonup> line list"
  alarms :: "alarm list"
  subscriptions :: "(string \<times> string) list"
  publish_calls :: "publication list"
  error_log :: "string list"
  stdout :: "string list"

datatype 'a outcome = Returned 'a world | Raised exn world

section \<open>The functions of the script\<close>

definition logging_error :: "string \<Rightarrow> world \<Rightarrow> world" where
  "logging_error msg w = w\<lparr>error_log := error_log w @ [msg]\<rparr>"

definition print :: "string \<Rightarrow> world \<Rightarrow> world" where
  "print msg w = w\<lparr>stdout := stdout w @ [msg]\<rparr>"

text \<open>\<^verbatim>\<open>notify_stakeholders\<close>: a \<open>ClientError\<close> of the publish call is logged and swallowed.\<close>

definition notify_stakeholders :: "config \<Rightarrow> env \<Rightarrow> string \<Rightarrow> world \<Rightarrow> world" where
  "notify_stakeholders cfg env error_message w =
     (let p = \<lparr>TopicArn = error_topic_arn cfg,
                Subject = ''Error Notification: EC2 Monitoring'',
                Message = error_message\<rparr>;
          w1 = w\<lparr>publish_calls := publish_calls w @ [p]\<rparr>
      in case sns_publish env p of
           None \<Rightarrow> w1
         | Some e \<Rightarrow> logging_error (''Error sending error notification: '' @ e) w1)"

text \<open>The handler shared by the setup functions: log, notify, re-raise.\<close>

definition log_notify_raise :: "config \<Rightarrow> env \<Rightarrow> string \<Rightarrow> string \<Rightarrow> world \<Rightarrow> 'a outcome" where
  "log_notify_raise cfg env prefix e w =
     Raised (ClientError e) (notify_stakeholders cfg env (prefix @ e) (logging_error (prefix @ e) w))"

definition create_sns_topic :: "config \<Rightarrow> env \<Rightarrow> world \<Rightarrow> string outcome" where
  "create_sns_topic cfg env w =
     (case sns_create_topic env (sns_topic_name cfg) of
        Inr arn \<Rightarrow> Returned arn w
      | Inl e \<Rightarrow> log_notify_raise cfg env ''Error creating SNS topic: '' e w)"

definition subscribe_email :: "config \<Rightarrow> env \<Rightarrow> string \<Rightarrow> string \<Rightarrow> world \<Rightarrow> unit outcome" where
  "subscribe_email cfg env topic_arn addr w =
     (case sns_subscribe env topic_arn addr of
        None \<Rightarrow> Returned () (w\<lparr>subscriptions := subscriptions w @ [(topic_arn, addr)]\<rparr>)
      | Some e \<Rightarrow> log_notify_raise cfg env ''Error subscribing email to SNS topic: '' e w)"

subsection \<open>\<^verbatim>\<open>create_alarms\<close>\<close>

definition mk_alarm :: "string \<Rightarrow> string \<Rightarrow> string \<Rightarrow> real \<Rightarrow> string \<Rightarrow> alarm" where
  "mk_alarm instance_id stat tier threshold topic_arn =
     \<lparr>AlarmName = instance_id @ ''_'' @ stat @ ''_'' @ tier @ ''_Alarm'',
      MetricName = stat,
      Namespace = ''AWS/EC2'',
      Statistic = ''Average'',
      Period = 60,
      EvaluationPeriods = 1,
      Threshold = threshold,
      ComparisonOperator = ''GreaterThanThreshold'',
      AlarmActions = [topic_arn],
      Dimensions = [(''InstanceId'', instance_id)]\<rparr>"

text \<open>
  The first or the second \<^verbatim>\<open>put_metric_alarm\<close> of the loop body: the threshold is looked
  up while the arguments are built (\<open>KeyError\<close> leaves the \<^verbatim>\<open>try\<close>, which catches only
  \<open>ClientError\<close>), then the call is made.
\<close>

definition put_tier_alarm ::
  "config \<Rightarrow> env \<Rightarrow> string \<Rightarrow> string \<Rightarrow> string \<Rightarrow> string \<Rightarrow> string \<Rightarrow> world \<Rightarrow> unit outcome" where
  "put_tier_alarm cfg env topic_arn instance_id stat tier key w =
     (case thresholds cfg stat of
        None \<Rightarrow> Raised (KeyError stat) w
      | Some th \<Rightarrow>
          (case th key of
             None \<Rightarrow> Raised (KeyError key) w
           | Some t \<Rightarrow>
               (case put_metric_alarm env (mk_alarm instance_id stat tier t topic_arn) of
                  None \<Rightarrow>
                    Returned () (w\<lparr>alarms := alarms w @ [mk_alarm instance_id stat tier t topic_arn]\<rparr>)
                | Some e \<Rightarrow>
                    log_notify_raise cfg env
                      (''Error creating CloudWatch alarm for '' @ stat @ '' on '' @ instance_id @ '': '')
                      e w)))"

definition create_alarms_pair ::
  "config \<Rightarrow> env \<Rightarrow> string \<Rightarrow> string \<Rightarrow> string \<Rightarrow> world \<Rightarrow> unit outcome" where
  "create_alarms_pair cfg env topic_arn instance_id stat w =
     (case put_tier_alarm cfg env topic_arn instance_id stat ''Amber'' ''amber'' w of
        Raised e w1 \<Rightarrow> Raised e w1
      | Returned _ w1 \<Rightarrow> put_tier_alarm cfg env topic_arn instance_id stat ''Red'' ''red'' w1)"

fun create_alarms_stats ::
  "config \<Rightarrow> env \<Rightarrow> string \<Rightarrow> string \<Rightarrow> string list \<Rightarrow> world \<Rightarrow> unit outcome" where
  "create_alarms_stats cfg env topic_arn instance_id [] w = Returned () w"
| "create_alarms_stats cfg env topic_arn instance_id (stat # rest) w =
     (case create_alarms_pair cfg env topic_arn instance_id stat w of
        Raised e w1 \<Rightarrow> Raised e w1
      | Returned _ w1 \<Rightarrow> create_alarms_stats cfg env topic_arn instance_id rest w1)"

fun create_alarms_instances ::
  "config \<Rightarrow> env \<Rightarrow> string \<Rightarrow> string list \<Rightarrow> world \<Rightarrow> unit outcome" where
  "create_alarms_instances cfg env topic_arn [] w = Returned () w"
| "create_alarms_instances cfg env topic_arn (instance_id # rest) w =
     (case create_alarms_stats cfg env topic_arn instance_id (stats cfg) w of
        Raised e w1 \<Rightarrow> Raised e w1
      | Returned _ w1 \<Rightarrow> create_alarms_instances cfg env topic_arn rest w1)"

definition create_alarms :: "config \<Rightarrow> env \<Rightarrow> string \<Rightarrow> world \<Rightarrow> unit outcome" where
  "create_alarms cfg env topic_arn w = create_alarms_instances cfg env topic_arn (instances cfg) w"

subsection \<open>\<^verbatim>\<open>record_metrics\<close>\<close>

text \<open>
  The body of the inner loop for one stat. \<open>sts\<close> is \<^verbatim>\<open>instance_metrics['stats']\<close>, a
  dictionary in insertion order; assigning to a key replaces the value in place or adds
  the key at the end.
\<close>

definition record_stat ::
  "config \<Rightarrow> env \<Rightarrow> string \<Rightarrow> (string \<times> json) list \<times> world \<Rightarrow> string \<Rightarrow> (string \<times> json) list \<times> world" where
  "record_stat cfg env instance_id acc stat =
     (case acc of (sts, w) \<Rightarrow>
        (case get_metric_statistics env stat instance_id (utcnow env) of
           Inr data_points \<Rightarrow>
             (case data_points of
                dp # _ \<Rightarrow> (AList.update stat (JNum (Average dp)) sts, w)
              | [] \<Rightarrow> (AList.update stat JNull sts, w))
         | Inl e \<Rightarrow>
             (let msg = ''Error getting metric statistics for '' @ stat @ '' on '' @ instance_id @ '': '' @ e
              in (AList.update stat JNull sts, notify_stakeholders cfg env msg (logging_error msg w)))))"

text \<open>The body of the outer loop: one \<^verbatim>\<open>instance_metrics\<close> appended to the list.\<close>

definition record_instance ::
  "config \<Rightarrow> env \<Rightarrow> json list \<times> world \<Rightarrow> string \<Rightarrow> json list \<times> world" where
  "record_instance cfg env acc instance_id =
     (case acc of (ms, w) \<Rightarrow>
        (case foldl (record_stat cfg env instance_id) ([], w) (stats cfg) of
           (sts, w1) \<Rightarrow> (ms @ [JObj [(''instance_id'', JStr instance_id), (''stats'', JObj sts)]], w1)))"

definition gather_metrics :: "config \<Rightarrow> env \<Rightarrow> world \<Rightarrow> json \<times> world" where
  "gather_metrics cfg env w =
     (case foldl (record_instance cfg env) ([], w) (instances cfg) of
        (ms, w1) \<Rightarrow>
          (JObj [(''timestamp'', JStr (str_datetime (utcnow env))), (''metrics'', JArr ms)], w1))"

definition append_line :: "string \<Rightarrow> line \<Rightarrow> world \<Rightarrow> world" where
  "append_line path l w =
     w\<lparr>files := (files w)(path \<mapsto> (case files w path of None \<Rightarrow> [l] | Some ls \<Rightarrow> ls @ [l]))\<rparr>"

text \<open>
  The write either happens whole or raises \<open>IOError\<close> with nothing written; the handler
  logs, notifies and re-raises.
\<close>

definition record_metrics :: "config \<Rightarrow> env \<Rightarrow> world \<Rightarrow> unit outcome" where
  "record_metrics cfg env w =
     (case gather_metrics cfg env w of
        (metrics_data, w1) \<Rightarrow>
          (case open_append env (metrics cfg) of
             None \<Rightarrow> Returned () (append_line (metrics cfg) (Doc metrics_data) w1)
           | Some e \<Rightarrow>
               (let msg = ''Error writing metrics data to file: '' @ e
                in Raised (IOError e) (notify_stakeholders cfg env msg (logging_error msg w1)))))"

subsection \<open>\<^verbatim>\<open>send_weekly_summary\<close>\<close>

text \<open>\<^verbatim>\<open>v[key]\<close> with a string key, and \<^verbatim>\<open>v[0]\<close>, on a value that \<^verbatim>\<open>json.loads\<close> returned.\<close>

fun subscript_str :: "json \<Rightarrow> string \<Rightarrow> exn + json" where
  "subscript_str (JObj kvs) k = (case map_of kvs k of None \<Rightarrow> Inl (KeyError k) | Some v \<Rightarrow> Inr v)"
| "subscript_str (JArr _) k = Inl (TypeError ''list indices must be integers or slices, not str'')"
| "subscript_str (JStr _) k = Inl (TypeError ''string indices must be integers'')"
| "subscript_str (JNum _) k = Inl (TypeError ''object is not subscriptable'')"
| "subscript_str (JInt _) k = Inl (TypeError ''object is not subscriptable'')"
| "subscript_str JNull k = Inl (TypeError ''object is not subscriptable'')"

fun subscript_0 :: "json \<Rightarrow> exn + json" where
  "subscript_0 (JArr []) = Inl (IndexError ''list index out of range'')"
| "subscript_0 (JArr (v # _)) = Inr v"
| "subscript_0 (JObj _) = Inl (KeyError ''0'')"
| "subscript_0 (JStr []) = Inl (IndexError ''string index out of range'')"
| "subscript_0 (JStr (c # _)) = Inr (JStr [c])"
| "subscript_0 (JNum _) = Inl (TypeError ''object is not subscriptable'')"
| "subscript_0 (JInt _) = Inl (TypeError ''object is not subscriptable'')"
| "subscript_0 JNull = Inl (TypeError ''object is not subscriptable'')"

text \<open>\<^verbatim>\<open>entry['metrics'][0]['stats'][stat]\<close>\<close>

definition entry_stat :: "json \<Rightarrow> string \<Rightarrow> exn + json" where
  "entry_stat entry stat =
     (case subscript_str entry ''metrics'' of
        Inl e \<Rightarrow> Inl e
      | Inr ms \<Rightarrow>
          (case subscript_0 ms of
             Inl e \<Rightarrow> Inl e
           | Inr m \<Rightarrow>
               (case subscript_str m ''stats'' of
                  Inl e \<Rightarrow> Inl e
                | Inr sts \<Rightarrow> subscript_str sts stat)))"

text \<open>The list comprehension: entries in order, those with \<^verbatim>\<open>None\<close> filtered out.\<close>

fun stat_values :: "string \<Rightarrow> json list \<Rightarrow> exn + json list" where
  "stat_values stat [] = Inr []"
| "stat_values stat (entry # data) =
     (case entry_stat entry stat of
        Inl e \<Rightarrow> Inl e
      | Inr v \<Rightarrow>
          (case stat_values stat data of
             Inl e \<Rightarrow> Inl e
           | Inr vs \<Rightarrow> Inr (if v \<noteq> JNull then v # vs else vs)))"

text \<open>
  The numbers of the report. A value read from the log is a Python int or a float; a
  result of float arithmetic may also be an infinity or a NaN.
\<close>

datatype pynum = PInt int | PFloat real | PInf | PNegInf | PNaN

fun value_of :: "pynum \<Rightarrow> real" where
  "value_of (PInt i) = real_of_int i"
| "value_of (PFloat x) = x"
| "value_of _ = 0"

text \<open>Python's \<^verbatim>\<open><\<close> on two numbers: exact between int and float, false with a NaN.\<close>

fun py_less :: "pynum \<Rightarrow> pynum \<Rightarrow> bool" where
  "py_less PNaN _ = False"
| "py_less _ PNaN = False"
| "py_less PInf _ = False"
| "py_less _ PNegInf = False"
| "py_less PNegInf _ = True"
| "py_less _ PInf = True"
| "py_less a b = (value_of a < value_of b)"

text \<open>
  What Python's arithmetic answers in the report: the builtin \<^verbatim>\<open>sum\<close>, the operator
  \<^verbatim>\<open>/\<close> and the rendering of a number in an f-string. On floats \<^verbatim>\<open>sum\<close> and \<^verbatim>\<open>/\<close> round
  and may overflow to an infinity, on an int too large for a float they raise
  \<open>OverflowError\<close>; the model does not compute any of this, it takes the three functions
  as an input, and a theorem about the report holds whatever they are.
\<close>

record arith =
  py_sum :: "pynum list \<Rightarrow> exn + pynum"
  py_truediv :: "pynum \<Rightarrow> pynum \<Rightarrow> exn + pynum"
  py_str :: "pynum \<Rightarrow> string"

text \<open>
  \<^verbatim>\<open>max\<close>, \<^verbatim>\<open>min\<close> and \<^verbatim>\<open>sum\<close> need numbers: on a list holding anything else, one of them
  raises \<open>TypeError\<close>.
\<close>

fun numbers :: "json list \<Rightarrow> exn + pynum list" where
  "numbers [] = Inr []"
| "numbers (JNum x # vs) = (case numbers vs of Inl e \<Rightarrow> Inl e | Inr xs \<Rightarrow> Inr (PFloat x # xs))"
| "numbers (JInt i # vs) = (case numbers vs of Inl e \<Rightarrow> Inl e | Inr xs \<Rightarrow> Inr (PInt i # xs))"
| "numbers (_ # vs) = Inl (TypeError ''unsupported operand type(s)'')"

text \<open>
  \<^verbatim>\<open>max(values)\<close> and \<^verbatim>\<open>min(values)\<close>: the first item is kept until a later one is greater
  (smaller). Both are called under \<^verbatim>\<open>if values:\<close>, never on the empty list.
\<close>

fun py_max :: "pynum list \<Rightarrow> pynum" where
  "py_max [] = PInt 0"
| "py_max (x # xs) = foldl (\<lambda>m v. if py_less m v then v else m) x xs"

fun py_min :: "pynum list \<Rightarrow> pynum" where
  "py_min [] = PInt 0"
| "py_min (x # xs) = foldl (\<lambda>m v. if py_less v m then v else m) x xs"

text \<open>\<^verbatim>\<open>sum(values) / len(values)\<close>\<close>

definition py_average :: "arith \<Rightarrow> pynum list \<Rightarrow> exn + pynum" where
  "py_average ar values =
     (case py_sum ar values of
        Inl e \<Rightarrow> Inl e
      | Inr t \<Rightarrow> py_truediv ar t (PInt (int (length values))))"

record summary =
  high :: pynum
  low :: pynum
  average :: pynum

text \<open>The dictionary stored for one stat; an exception of the arithmetic leaves it.\<close>

definition summarize :: "arith \<Rightarrow> pynum list \<Rightarrow> exn + summary" where
  "summarize ar values =
     (case py_average ar values of
        Inl e \<Rightarrow> Inl e
      | Inr mean \<Rightarrow> Inr \<lparr>high = py_max values, low = py_min values, average = mean\<rparr>)"

text \<open>The loop over \<^verbatim>\<open>config['stats']\<close> that fills \<^verbatim>\<open>weekly_summary\<close>.\<close>

fun summarize_stats ::
  "arith \<Rightarrow> json list \<Rightarrow> string list \<Rightarrow> (string \<times> summary) list \<Rightarrow>
     exn + (string \<times> summary) list" where
  "summarize_stats ar data [] weekly_summary = Inr weekly_summary"
| "summarize_stats ar data (stat # rest) weekly_summary =
     (case stat_values stat data of
        Inl e \<Rightarrow> Inl e
      | Inr vs \<Rightarrow>
          (if vs \<noteq> [] then
             (case numbers vs of
                Inl e \<Rightarrow> Inl e
              | Inr values \<Rightarrow>
                  (case summarize ar values of
                     Inl e \<Rightarrow> Inl e
                   | Inr s \<Rightarrow> summarize_stats ar data rest (AList.update stat s weekly_summary)))
           else summarize_stats ar data rest weekly_summary))"

text \<open>The message: the header, then one block per item of \<^verbatim>\<open>weekly_summary\<close>.\<close>

definition summary_block :: "arith \<Rightarrow> string \<times> summary \<Rightarrow> string" where
  "summary_block ar item =
     (case item of (stat, s) \<Rightarrow>
        [CHR 0x0A] @ stat @ '':'' @ [CHR 0x0A] @ ''  High: '' @ py_str ar (high s) @
        [CHR 0x0A] @ ''  Low: '' @ py_str ar (low s) @
        [CHR 0x0A] @ ''  Average: '' @ py_str ar (average s))"

definition summary_message :: "arith \<Rightarrow> (string \<times> summary) list \<Rightarrow> string" where
  "summary_message ar weekly_summary =
     foldl (\<lambda>msg item. msg @ summary_block ar item)
       (''Weekly Summary:'' @ [CHR 0x0A]) weekly_summary"

fun loads_lines :: "line list \<Rightarrow> exn + json list" where
  "loads_lines [] = Inr []"
| "loads_lines (Doc j # ls) = (case loads_lines ls of Inl e \<Rightarrow> Inl e | Inr js \<Rightarrow> Inr (j # js))"
| "loads_lines (Malformed t # ls) = Inl (JSONDecodeError t)"

text \<open>
  Only \<open>ClientError\<close> is caught, and only \<^verbatim>\<open>sns.publish\<close> raises it: a missing file, a
  line that does not parse and a failing subscript leave the function as they are.
\<close>

definition send_weekly_summary ::
  "arith \<Rightarrow> config \<Rightarrow> env \<Rightarrow> string \<Rightarrow> world \<Rightarrow> unit outcome" where
  "send_weekly_summary ar cfg env topic_arn w =
     (case files w (data_file cfg) of
        None \<Rightarrow> Raised (IOError ''No such file or directory'') w
      | Some ls \<Rightarrow>
          (case loads_lines ls of
             Inl e \<Rightarrow> Raised e w
           | Inr data \<Rightarrow>
               (case summarize_stats ar data (stats cfg) [] of
                  Inl e \<Rightarrow> Raised e w
                | Inr weekly_summary \<Rightarrow>
                    (let p = \<lparr>TopicArn = topic_arn, Subject = ''Weekly EC2 Metrics Summary'',
                               Message = summary_message ar weekly_summary\<rparr>;
                         w1 = w\<lparr>publish_calls := publish_calls w @ [p]\<rparr>
                     in case sns_publish env p of
                          None \<Rightarrow> Returned () w1
                        | Some e \<Rightarrow> log_notify_raise cfg env ''Error sending weekly summary: '' e w1))))"

subsection \<open>\<^verbatim>\<open>main\<close> and the scheduler loop\<close>

text \<open>
  The three setup calls inside the \<^verbatim>\<open>try\<close> of \<^verbatim>\<open>main\<close>; its handler catches every
  exception, logs, notifies, prints and returns.
\<close>

definition main_setup :: "config \<Rightarrow> env \<Rightarrow> world \<Rightarrow> string outcome" where
  "main_setup cfg env w =
     (case create_sns_topic cfg env w of
        Raised e w1 \<Rightarrow> Raised e w1
      | Returned topic_arn w1 \<Rightarrow>
          (case subscribe_email cfg env topic_arn (email cfg) w1 of
             Raised e w2 \<Rightarrow> Raised e w2
           | Returned _ w2 \<Rightarrow>
               (case create_alarms cfg env topic_arn w2 of
                  Raised e w3 \<Rightarrow> Raised e w3
                | Returned _ w3 \<Rightarrow> Returned topic_arn w3)))"

text \<open>
  The two jobs registered with the \<^verbatim>\<open>schedule\<close> library. Which jobs are due at an
  iteration of the loop is decided by that library from the wall clock; here it is an
  input: an iteration is the list of its due jobs, each with the answers of the outside
  while it runs. \<^verbatim>\<open>schedule.run_pending()\<close> calls the due jobs one after the other and
  has no exception handler, and neither has the \<^verbatim>\<open>while True\<close> of \<^verbatim>\<open>main\<close>: an exception
  of a job leaves \<^verbatim>\<open>run_pending\<close>, the loop and \<^verbatim>\<open>main\<close>.
\<close>

datatype job = RecordMetrics | SendWeeklySummary

definition run_job ::
  "arith \<Rightarrow> config \<Rightarrow> string \<Rightarrow> job \<Rightarrow> env \<Rightarrow> world \<Rightarrow> unit outcome" where
  "run_job ar cfg topic_arn j env w =
     (case j of
        RecordMetrics \<Rightarrow> record_metrics cfg env w
      | SendWeeklySummary \<Rightarrow> send_weekly_summary ar cfg env topic_arn w)"

fun run_pending ::
  "arith \<Rightarrow> config \<Rightarrow> string \<Rightarrow> (job \<times> env) list \<Rightarrow> world \<Rightarrow> unit outcome" where
  "run_pending ar cfg topic_arn [] w = Returned () w"
| "run_pending ar cfg topic_arn ((j, env) # due) w =
     (case run_job ar cfg topic_arn j env w of
        Raised e w1 \<Rightarrow> Raised e w1
      | Returned _ w1 \<Rightarrow> run_pending ar cfg topic_arn due w1)"

text \<open>
  The loop never ends by itself, so it is run on a finite prefix of its iterations:
  \<open>Returned\<close> is the state with the loop still running after them, \<open>Raised\<close> the
  exception that ended the process and the state it left.
\<close>

fun main_loop ::
  "arith \<Rightarrow> config \<Rightarrow> string \<Rightarrow> (job \<times> env) list list \<Rightarrow> world \<Rightarrow> unit outcome" where
  "main_loop ar cfg topic_arn [] w = Returned () w"
| "main_loop ar cfg topic_arn (due # later) w =
     (case run_pending ar cfg topic_arn due w of
        Raised e w1 \<Rightarrow> Raised e w1
      | Returned _ w1 \<Rightarrow> main_loop ar cfg topic_arn later w1)"

definition main ::
  "arith \<Rightarrow> config \<Rightarrow> env \<Rightarrow> (job \<times> env) list list \<Rightarrow> world \<Rightarrow> unit outcome" where
  "main ar cfg env iterations w =
     (case main_setup cfg env w of
        Raised e w1 \<Rightarrow>
          (let error_msg = ''Setup failed: '' @ str_exn e
           in Returned () (print error_msg (notify_stakeholders cfg env error_msg (logging_error error_msg w1))))
      | Returned topic_arn w1 \<Rightarrow>
          main_loop ar cfg topic_arn iterations (print ''Setup complete, entering main loop.'' w1))"

text \<open>The collection job run once per element of \<open>envs\<close>, stopping at the first exception.\<close>

fun ticks :: "config \<Rightarrow> env list \<Rightarrow> world \<Rightarrow> unit outcome" where
  "ticks cfg [] w = Returned () w"
| "ticks cfg (env # envs) w =
     (case record_metrics cfg env w of
        Raised e w1 \<Rightarrow> Raised e w1
      | Returned _ w1 \<Rightarrow> ticks cfg envs w1)"

section \<open>Concrete inputs and auxiliary notions\<close>

text \<open>
  An outside where every call succeeds and CloudWatch has no data, an untouched state,
  and a configuration of one instance and one stat.
\<close>
definition example_env :: env where
  "example_env =
     \<lparr>utcnow = \<lparr>year = 2024, month = 1, day = 1, hour = 0, minute = 0, second = 0, microsecond = 0\<rparr>,
      get_metric_statistics = (\<lambda>stat instance_id t. Inr []),
      put_metric_alarm = (\<lambda>a. None),
      sns_create_topic = (\<lambda>n. Inr ''arn:topic''),
      sns_subscribe = (\<lambda>t e. None),
      sns_publish = (\<lambda>p. None),
      open_append = (\<lambda>p. None)\<rparr>"

definition empty_world :: world where
  "empty_world =
     \<lparr>files = Map.empty, alarms = [], subscriptions = [], publish_calls = [],
      error_log = [], stdout = []\<rparr>"

definition example_config :: config where
  "example_config =
     \<lparr>region = ''us-east-1'', log_file = ''monitor.log'', instances = [''i-1''],
      stats = [''CPUUtilization''],
      thresholds = [''CPUUtilization'' \<mapsto> [''amber'' \<mapsto> 70, ''red'' \<mapsto> 90]],
      email = ''ops@example.com'', sns_topic_name = ''ec2-monitoring'',
      error_topic_arn = ''arn:errors'', metrics = ''metrics.json'', data_file = ''metrics.json''\<rparr>"

definition spec_config :: config where
  "spec_config = example_config\<lparr>thresholds := [''CPUUtilization'' \<mapsto> [''warning'' \<mapsto> 70, ''critical'' \<mapsto> 90]]\<rparr>"

text \<open>The two alarms that one pass of the loop body of \<^verbatim>\<open>create_alarms\<close> registers.\<close>

definition pair_alarms :: "config \<Rightarrow> string \<Rightarrow> string \<Rightarrow> string \<Rightarrow> alarm list" where
  "pair_alarms cfg topic_arn instance_id stat =
     [mk_alarm instance_id stat ''Amber'' (the (the (thresholds cfg stat) ''amber'')) topic_arn,
      mk_alarm instance_id stat ''Red'' (the (the (thresholds cfg stat) ''red'')) topic_arn]"

text \<open>
  The lines of a file; a file that does not exist has none.
\<close>

definition file_lines :: "world \<Rightarrow> string \<Rightarrow> line list" where
  "file_lines w path = (case files w path of None \<Rightarrow> [] | Some ls \<Rightarrow> ls)"

text \<open>
  What one pass of the inner loop of \<^verbatim>\<open>record_metrics\<close> stores and publishes, and the
  dictionary and the entry that the loops build from it.
\<close>

definition stat_value :: "env \<Rightarrow> string \<Rightarrow> string \<Rightarrow> json" where
  "stat_value env instance_id stat =
     (case get_metric_statistics env stat instance_id (utcnow env) of
        Inr (dp # _) \<Rightarrow> JNum (Average dp)
      | Inr [] \<Rightarrow> JNull
      | Inl e \<Rightarrow> JNull)"

definition error_publication :: "config \<Rightarrow> string \<Rightarrow> publication" where
  "error_publication cfg msg =
     \<lparr>TopicArn = error_topic_arn cfg, Subject = ''Error Notification: EC2 Monitoring'',
      Message = msg\<rparr>"

definition stat_notifications :: "config \<Rightarrow> env \<Rightarrow> string \<Rightarrow> string \<Rightarrow> publication list" where
  "stat_notifications cfg env instance_id stat =
     (case get_metric_statistics env stat instance_id (utcnow env) of
        Inl e \<Rightarrow>
          [error_publication cfg
             (''Error getting metric statistics for '' @ stat @ '' on '' @ instance_id @ '': '' @ e)]
      | Inr _ \<Rightarrow> [])"

definition stats_dict :: "env \<Rightarrow> string \<Rightarrow> string list \<Rightarrow> (string \<times> json) list \<Rightarrow> (string \<times> json) list" where
  "stats_dict env instance_id ss sts =
     foldl (\<lambda>acc s. AList.update s (stat_value env instance_id s) acc) sts ss"

definition instance_entry :: "config \<Rightarrow> env \<Rightarrow> string \<Rightarrow> json" where
  "instance_entry cfg env instance_id =
     JObj [(''instance_id'', JStr instance_id),
           (''stats'', JObj (stats_dict env instance_id (stats cfg) []))]"

text \<open>
  Reading a record back: the value under stat \<open>s\<close> of the \<open>k\<close>-th entry of its
  \<open>metrics\<close> list.
\<close>

fun recorded_value :: "json \<Rightarrow> nat \<Rightarrow> string \<Rightarrow> json option" where
  "recorded_value (JObj [(t, ts), (m, JArr ms)]) k s =
     (if k < length ms then
        (case ms ! k of JObj [(a, iid), (b, JObj sts)] \<Rightarrow> map_of sts s | _ \<Rightarrow> None)
      else None)"
| "recorded_value _ k s = None"

text \<open>
  The state an outcome carries.
\<close>

definition final_world :: "'a outcome \<Rightarrow> world" where
  "final_world r = (case r of Returned _ w \<Rightarrow> w | Raised _ w \<Rightarrow> w)"

text \<open>
  A configuration of three stats, and an outside where CloudWatch has two data points
  for the first, none for the second and fails on the third.
\<close>

definition sample_config :: config where
  "sample_config =
     example_config\<lparr>stats := [''CPUUtilization'', ''NetworkIn'', ''DiskReadOps'']\<rparr>"

definition sample_env :: env where
  "sample_env =
     example_env\<lparr>get_metric_statistics := (\<lambda>stat instance_id t.
        if stat = ''CPUUtilization''
        then Inr [\<lparr>Timestamp = t, Average = 42\<rparr>, \<lparr>Timestamp = t, Average = 7\<rparr>]
        else if stat = ''NetworkIn'' then Inr []
        else Inl ''Throttling'')\<rparr>"





text \<open>
  The keys of a Python dictionary that was filled by assigning to the keys \<open>xs\<close> in
  order: each key once, at the place of its first assignment.
\<close>

fun first_occurrences :: "'a list \<Rightarrow> 'a list" where
  "first_occurrences [] = []"
| "first_occurrences (x # xs) = x # filter (\<lambda>y. y \<noteq> x) (first_occurrences xs)"

text \<open>
  A log of three records with the ints 10, 20 and 30 for one stat and \<open>null\<close> for
  another, and a configuration of these two stats.
\<close>

definition history_json :: "int \<Rightarrow> json" where
  "history_json i =
     JObj [(''timestamp'', JStr ''2024-01-01 00:00:00''),
           (''metrics'', JArr [JObj [(''instance_id'', JStr ''i-1''),
              (''stats'', JObj [(''CPUUtilization'', JInt i), (''NetworkIn'', JNull)])]])]"


definition history_config :: config where
  "history_config = example_config\<lparr>stats := [''CPUUtilization'', ''NetworkIn'']\<rparr>"

text \<open>
  An arithmetic for the examples. It is exact, as Python's is on the small numbers of the
  examples, and renders an int in decimal and the floats 10, 20 and 100 as Python does.
\<close>

fun sample_add :: "pynum \<Rightarrow> pynum \<Rightarrow> pynum" where
  "sample_add (PInt a) (PInt b) = PInt (a + b)"
| "sample_add a b = PFloat (value_of a + value_of b)"

definition sample_str :: "pynum \<Rightarrow> string" where
  "sample_str n =
     (case n of
        PInt i \<Rightarrow> (if i < 0 then ''-'' @ dec (nat (- i)) else dec (nat i))
      | PFloat x \<Rightarrow>
          (if x = 10 then ''10.0'' else if x = 20 then ''20.0''
           else if x = 100 then ''100.0'' else ''?'')
      | PInf \<Rightarrow> ''inf''
      | PNegInf \<Rightarrow> ''-inf''
      | PNaN \<Rightarrow> ''nan'')"

definition sample_arith :: arith where
  "sample_arith =
     \<lparr>py_sum = (\<lambda>vs. Inr (foldl sample_add (PInt 0) vs)),
      py_truediv = (\<lambda>a b. Inr (PFloat (value_of a / value_of b))),
      py_str = sample_str\<rparr>"



text \<open>A log whose second line has an empty \<open>metrics\<close> list.\<close>

definition empty_metrics_json :: json where
  "empty_metrics_json =
     JObj [(''timestamp'', JStr ''2024-01-01 00:01:00''), (''metrics'', JArr [])]"

definition broken_world :: world where
  "broken_world = empty_world\<lparr>files := [''metrics.json'' \<mapsto>
     [Doc (history_json 10), Doc empty_metrics_json]]\<rparr>"

text \<open>
  A configuration whose \<open>data_file\<close> and \<open>metrics\<close> name two files, and an outside where
  the metrics file cannot be written.
\<close>

definition split_config :: config where
  "split_config = example_config\<lparr>data_file := ''data.json''\<rparr>"

definition full_disk_env :: env where
  "full_disk_env = example_env\<lparr>open_append := (\<lambda>path. Some ''No space left on device'')\<rparr>"


text \<open>The decimal digits of a number in a field of exactly \<open>w\<close> characters.\<close>

fun digits :: "nat \<Rightarrow> nat \<Rightarrow> string" where
  "digits 0 n = []"
| "digits (Suc w) n = digits w (n div 10) @ [digit_char (n mod 10)]"

text \<open>
  The MetricRecord of the specification, which the script itself never parses: a
  timestamp and, per instance, the value of each stat, a number or absent. Following the
  schema of the specification, a JSON document parses as one when it is an object with a
  string under \<open>timestamp\<close> and, under \<open>metrics\<close>, a list of objects with a string under
  \<open>instance_id\<close> and, under \<open>stats\<close>, an object whose values are numbers or \<open>null\<close>.
\<close>

type_synonym metric_record = "string \<times> (string \<times> (string \<times> real option) list) list"

fun parse_value :: "json \<Rightarrow> real option option" where
  "parse_value JNull = Some None"
| "parse_value (JInt i) = Some (Some (of_int i))"
| "parse_value (JNum x) = Some (Some x)"
| "parse_value _ = None"

fun parse_stats :: "(string \<times> json) list \<Rightarrow> (string \<times> real option) list option" where
  "parse_stats [] = Some []"
| "parse_stats ((k, v) # kvs) =
     (case parse_value v of
        None \<Rightarrow> None
      | Some x \<Rightarrow> (case parse_stats kvs of None \<Rightarrow> None | Some r \<Rightarrow> Some ((k, x) # r)))"

definition parse_entry :: "json \<Rightarrow> (string \<times> (string \<times> real option) list) option" where
  "parse_entry j =
     (case j of
        JObj kvs \<Rightarrow>
          (case (map_of kvs ''instance_id'', map_of kvs ''stats'') of
             (Some (JStr i), Some (JObj sts)) \<Rightarrow>
               (case parse_stats sts of None \<Rightarrow> None | Some r \<Rightarrow> Some (i, r))
           | _ \<Rightarrow> None)
      | _ \<Rightarrow> None)"

fun parse_entries :: "json list \<Rightarrow> (string \<times> (string \<times> real option) list) list option" where
  "parse_entries [] = Some []"
| "parse_entries (j # js) =
     (case parse_entry j of
        None \<Rightarrow> None
      | Some e \<Rightarrow> (case parse_entries js of None \<Rightarrow> None | Some r \<Rightarrow> Some (e # r)))"

definition parse_metric_record :: "json \<Rightarrow> metric_record option" where
  "parse_metric_record j =
     (case j of
        JObj kvs \<Rightarrow>
          (case (map_of kvs ''timestamp'', map_of kvs ''metrics'') of
             (Some (JStr t), Some (JArr ms)) \<Rightarrow>
               (case parse_entries ms of None \<Rightarrow> None | Some r \<Rightarrow> Some (t, r))
           | _ \<Rightarrow> None)
      | _ \<Rightarrow> None)"

text \<open>A line parses when it is a JSON document that parses; its timestamp is then defined.\<close>

definition parse_line :: "line \<Rightarrow> metric_record option" where
  "parse_line l = (case l of Doc j \<Rightarrow> parse_metric_record j | Malformed t \<Rightarrow> None)"

definition line_timestamp :: "line \<Rightarrow> string" where
  "line_timestamp l = (case parse_line l of Some (t, ms) \<Rightarrow> t | None \<Rightarrow> [])"

text \<open>The record a tick builds; it does not depend on the state.\<close>

definition tick_record :: "config \<Rightarrow> env \<Rightarrow> json" where
  "tick_record cfg env =
     JObj [(''timestamp'', JStr (str_datetime (utcnow env))),
           (''metrics'', JArr (map (instance_entry cfg env) (instances cfg)))]"

text \<open>
  A string against a picture, in which \<open>d\<close> stands for one decimal digit and any other
  character for itself.
\<close>

definition is_digit :: "char \<Rightarrow> bool" where
  "is_digit c \<longleftrightarrow> CHR ''0'' \<le> c \<and> c \<le> CHR ''9''"

fun matches :: "string \<Rightarrow> string \<Rightarrow> bool" where
  "matches [] [] = True"
| "matches (p # ps) (c # cs) = ((if p = CHR ''d'' then is_digit c else c = p) \<and> matches ps cs)"
| "matches _ _ = False"

text \<open>
  The timestamp of the specification's schema: ISO 8601, a calendar date and a time of
  day in the extended format, \<^verbatim>\<open>YYYY-MM-DDThh:mm:ss\<close>, then a decimal fraction of the second
  after a full stop or a comma, if any, then a zone designator (\<^verbatim>\<open>Z\<close>, \<^verbatim>\<open>+hh:mm\<close>, \<^verbatim>\<open>+hh\<close>
  or the same with \<^verbatim>\<open>-\<close>), if any. The standard joins the date and the time by the letter
  \<^verbatim>\<open>T\<close>. Only the syntax is recognised, not the ranges of the fields.
\<close>

definition iso8601_fraction :: "string \<Rightarrow> bool" where
  "iso8601_fraction s \<longleftrightarrow>
     (case s of
        [] \<Rightarrow> True
      | c # ds \<Rightarrow> (c = CHR ''.'' \<or> c = CHR '','') \<and> ds \<noteq> [] \<and> list_all is_digit ds)"

definition iso8601_zone :: "string \<Rightarrow> bool" where
  "iso8601_zone s \<longleftrightarrow>
     s = [] \<or> s = ''Z'' \<or> matches ''+dd:dd'' s \<or> matches ''-dd:dd'' s \<or>
     matches ''+dd'' s \<or> matches ''-dd'' s"

definition zone_start :: "char \<Rightarrow> bool" where
  "zone_start c \<longleftrightarrow> c = CHR ''Z'' \<or> c = CHR ''+'' \<or> c = CHR ''-''"

definition iso8601_datetime :: "string \<Rightarrow> bool" where
  "iso8601_datetime s \<longleftrightarrow>
     matches ''dddd-dd-ddTdd:dd:dd'' (take 19 s) \<and>
     iso8601_fraction (takeWhile (\<lambda>c. \<not> zone_start c) (drop 19 s)) \<and>
     iso8601_zone (dropWhile (\<lambda>c. \<not> zone_start c) (drop 19 s))"

text \<open>
  What \<^verbatim>\<open>str\<close> makes of a naive \<^verbatim>\<open>datetime\<close>: \<^verbatim>\<open>YYYY-MM-DD hh:mm:ss\<close>, the date and the time
  joined by a space, followed by \<^verbatim>\<open>.ffffff\<close> when the microseconds are not zero.
\<close>

definition python_str_datetime :: "string \<Rightarrow> bool" where
  "python_str_datetime s \<longleftrightarrow>
     matches ''dddd-dd-dd dd:dd:dd'' s \<or> matches ''dddd-dd-dd dd:dd:dd.dddddd'' s"

text \<open>
  The outsides \<open>example_env\<close> and \<open>sample_env\<close> with a clock that reads \<open>d\<close>, and the
  instant \<open>m\<close> minutes, \<open>s\<close> seconds and \<open>us\<close> microseconds after midnight of the first
  day of 2024.
\<close>

definition env_at :: "datetime \<Rightarrow> env" where
  "env_at d = example_env\<lparr>utcnow := d\<rparr>"

definition sample_env_at :: "datetime \<Rightarrow> env" where
  "sample_env_at d = sample_env\<lparr>utcnow := d\<rparr>"

definition instant :: "nat \<Rightarrow> nat \<Rightarrow> nat \<Rightarrow> datetime" where
  "instant m s us =
     \<lparr>year = 2024, month = 1, day = 1, hour = 0, minute = m, second = s, microsecond = us\<rparr>"

text \<open>
  The line that a tick of \<open>example_config\<close> writes when CloudWatch has no data, and the
  state in which nothing happened but the writing of the lines \<open>ls\<close>.
\<close>

definition example_line :: "string \<Rightarrow> line" where
  "example_line t =
     Doc (JObj [(''timestamp'', JStr t),
                (''metrics'', JArr [JObj [(''instance_id'', JStr ''i-1''),
                   (''stats'', JObj [(''CPUUtilization'', JNull)])]])])"

definition log_world :: "line list \<Rightarrow> world" where
  "log_world ls = empty_world\<lparr>files := [''metrics.json'' \<mapsto> ls]\<rparr>"

text \<open>The state after a tick of \<open>example_config\<close> whose write failed with the text \<open>e\<close>.\<close>

definition write_failed_world :: "string \<Rightarrow> world" where
  "write_failed_world e =
     empty_world\<lparr>publish_calls :=
                    [\<lparr>TopicArn = ''arn:errors'', Subject = ''Error Notification: EC2 Monitoring'',
                      Message = ''Error writing metrics data to file: '' @ e\<rparr>],
                  error_log := [''Error writing metrics data to file: '' @ e]\<rparr>"

section \<open>Provisioning of the alarms\<close>

lemma put_tier_alarm_ok:
  assumes "thresholds cfg stat = Some th" and "th key = Some t" and "\<forall>a. put_metric_alarm env a = None"
  shows "put_tier_alarm cfg env topic_arn instance_id stat tier key w =
           Returned () (w\<lparr>alarms := alarms w @ [mk_alarm instance_id stat tier t topic_arn]\<rparr>)"
  using assms by (simp add: put_tier_alarm_def)

lemma create_alarms_pair_ok:
  assumes "thresholds cfg stat = Some th" and "th ''amber'' = Some a" and "th ''red'' = Some r"
    and "\<forall>a. put_metric_alarm env a = None"
  shows "create_alarms_pair cfg env topic_arn instance_id stat w =
           Returned () (w\<lparr>alarms := alarms w @ pair_alarms cfg topic_arn instance_id stat\<rparr>)"
  using assms by (simp add: create_alarms_pair_def put_tier_alarm_ok pair_alarms_def)

lemma create_alarms_stats_ok:
  assumes "\<forall>s \<in> set ss. \<exists>th a r. thresholds cfg s = Some th \<and> th ''amber'' = Some a \<and> th ''red'' = Some r"
    and "\<forall>a. put_metric_alarm env a = None"
  shows "create_alarms_stats cfg env topic_arn instance_id ss w =
           Returned () (w\<lparr>alarms := alarms w @ concat (map (pair_alarms cfg topic_arn instance_id) ss)\<rparr>)"
  using assms
proof (induction ss arbitrary: w)
  case Nil
  then show ?case by simp
next
  case (Cons s ss)
  from Cons.prems(1) obtain th a r where
    th: "thresholds cfg s = Some th" "th ''amber'' = Some a" "th ''red'' = Some r"
    by auto
  have rest: "\<forall>s \<in> set ss. \<exists>th a r. thresholds cfg s = Some th \<and> th ''amber'' = Some a \<and> th ''red'' = Some r"
    using Cons.prems(1) by simp
  show ?case
    by (simp add: create_alarms_pair_ok [OF th Cons.prems(2)] Cons.IH [OF rest Cons.prems(2)])
qed

lemma create_alarms_instances_ok:
  assumes "\<forall>s \<in> set (stats cfg). \<exists>th a r. thresholds cfg s = Some th \<and> th ''amber'' = Some a \<and> th ''red'' = Some r"
    and "\<forall>a. put_metric_alarm env a = None"
  shows "create_alarms_instances cfg env topic_arn is w =
           Returned () (w\<lparr>alarms := alarms w @
              concat (map (\<lambda>i. concat (map (pair_alarms cfg topic_arn i) (stats cfg))) is)\<rparr>)"
proof (induction "is" arbitrary: w)
  case Nil
  then show ?case by simp
next
  case (Cons i "is")
  show ?case
    by (simp add: create_alarms_stats_ok [OF assms] Cons.IH)
qed

text \<open>
  Claim C1, as the code has it. When every configured stat has thresholds under the keys
  \<open>amber\<close> and \<open>red\<close> and CloudWatch accepts every alarm, \<^verbatim>\<open>create_alarms\<close> returns
  and has registered, for every configured instance and stat in the order of the
  configuration, exactly two alarms: \<open>{instance}_{stat}_Amber_Alarm\<close> with the amber
  threshold, then \<open>{instance}_{stat}_Red_Alarm\<close> with the red threshold, each with the
  comparison \<open>GreaterThanThreshold\<close>, a period of 60 seconds and one evaluation period.
  Nothing else of the state changes.
\<close>

theorem create_alarms_registers_amber_red:
  assumes "\<forall>s \<in> set (stats cfg). \<exists>th a r. thresholds cfg s = Some th \<and> th ''amber'' = Some a \<and> th ''red'' = Some r"
    and "\<forall>a. put_metric_alarm env a = None"
  shows "create_alarms cfg env topic_arn w =
           Returned () (w\<lparr>alarms := alarms w @
              concat (map (\<lambda>i. concat (map (\<lambda>s.
                [\<lparr>AlarmName = i @ ''_'' @ s @ ''_Amber_Alarm'', MetricName = s,
                   Namespace = ''AWS/EC2'', Statistic = ''Average'', Period = 60,
                   EvaluationPeriods = 1, Threshold = the (the (thresholds cfg s) ''amber''),
                   ComparisonOperator = ''GreaterThanThreshold'', AlarmActions = [topic_arn],
                   Dimensions = [(''InstanceId'', i)]\<rparr>,
                 \<lparr>AlarmName = i @ ''_'' @ s @ ''_Red_Alarm'', MetricName = s,
                   Namespace = ''AWS/EC2'', Statistic = ''Average'', Period = 60,
                   EvaluationPeriods = 1, Threshold = the (the (thresholds cfg s) ''red''),
                   ComparisonOperator = ''GreaterThanThreshold'', AlarmActions = [topic_arn],
                   Dimensions = [(''InstanceId'', i)]\<rparr>]) (stats cfg))) (instances cfg))\<rparr>)"
proof -
  have "pair_alarms cfg topic_arn = (\<lambda>i s.
                [\<lparr>AlarmName = i @ ''_'' @ s @ ''_Amber_Alarm'', MetricName = s,
                   Namespace = ''AWS/EC2'', Statistic = ''Average'', Period = 60,
                   EvaluationPeriods = 1, Threshold = the (the (thresholds cfg s) ''amber''),
                   ComparisonOperator = ''GreaterThanThreshold'', AlarmActions = [topic_arn],
                   Dimensions = [(''InstanceId'', i)]\<rparr>,
                 \<lparr>AlarmName = i @ ''_'' @ s @ ''_Red_Alarm'', MetricName = s,
                   Namespace = ''AWS/EC2'', Statistic = ''Average'', Period = 60,
                   EvaluationPeriods = 1, Threshold = the (the (thresholds cfg s) ''red''),
                   ComparisonOperator = ''GreaterThanThreshold'', AlarmActions = [topic_arn],
                   Dimensions = [(''InstanceId'', i)]\<rparr>])"
    by (intro ext) (simp add: pair_alarms_def mk_alarm_def)
  then show ?thesis
    using create_alarms_instances_ok [OF assms, of topic_arn "instances cfg" w]
    by (simp add: create_alarms_def)
qed

text \<open>The two alarms of instance \<open>i-1\<close> and stat \<open>CPUUtilization\<close>, amber 70 and red 90.\<close>

theorem create_alarms_registers_amber_red_witness:
  "create_alarms example_config example_env ''arn:topic'' empty_world =
     Returned () (empty_world\<lparr>alarms :=
       [\<lparr>AlarmName = ''i-1_CPUUtilization_Amber_Alarm'', MetricName = ''CPUUtilization'',
          Namespace = ''AWS/EC2'', Statistic = ''Average'', Period = 60,
          EvaluationPeriods = 1, Threshold = 70,
          ComparisonOperator = ''GreaterThanThreshold'', AlarmActions = [''arn:topic''],
          Dimensions = [(''InstanceId'', ''i-1'')]\<rparr>,
        \<lparr>AlarmName = ''i-1_CPUUtilization_Red_Alarm'', MetricName = ''CPUUtilization'',
          Namespace = ''AWS/EC2'', Statistic = ''Average'', Period = 60,
          EvaluationPeriods = 1, Threshold = 90,
          ComparisonOperator = ''GreaterThanThreshold'', AlarmActions = [''arn:topic''],
          Dimensions = [(''InstanceId'', ''i-1'')]\<rparr>]\<rparr>)"
proof -
  have h1: "\<forall>s \<in> set (stats example_config). \<exists>th a r.
      thresholds example_config s = Some th \<and> th ''amber'' = Some a \<and> th ''red'' = Some r"
    by (simp add: example_config_def)
  have h2: "\<forall>a. put_metric_alarm example_env a = None"
    by (simp add: example_env_def)
  show ?thesis
    using create_alarms_registers_amber_red [OF h1 h2, of "''arn:topic''" empty_world]
    by (simp add: example_config_def empty_world_def)
qed

text \<open>
  Claim C1 as it is written fails: with the thresholds of the same stat under the keys
  \<open>warning\<close> and \<open>critical\<close>, the lookup of \<open>amber\<close> raises \<open>KeyError\<close> before any
  alarm is registered.
\<close>

theorem create_alarms_warning_critical_counterexample:
  "create_alarms spec_config example_env ''arn:topic'' empty_world =
     Raised (KeyError ''amber'') empty_world"
  by (simp add: create_alarms_def create_alarms_pair_def put_tier_alarm_def
      spec_config_def example_config_def)

section \<open>The collection tick\<close>

lemma publish_calls_logging_error [simp]:
  "publish_calls (logging_error msg w) = publish_calls w"
  by (simp add: logging_error_def)

lemma publish_calls_notify [simp]:
  "publish_calls (notify_stakeholders cfg env msg w) = publish_calls w @ [error_publication cfg msg]"
  by (simp add: notify_stakeholders_def error_publication_def Let_def logging_error_def split: option.split)

lemma files_logging_error [simp]: "files (logging_error msg w) = files w"
  by (simp add: logging_error_def)

lemma files_notify [simp]: "files (notify_stakeholders cfg env msg w) = files w"
  by (simp add: notify_stakeholders_def Let_def logging_error_def split: option.split)

lemma fst_record_stat:
  "fst (record_stat cfg env i (sts, w) s) = AList.update s (stat_value env i s) sts"
  by (simp add: record_stat_def stat_value_def Let_def split: sum.split list.split)

lemma publish_calls_record_stat:
  "publish_calls (snd (record_stat cfg env i (sts, w) s)) =
     publish_calls w @ stat_notifications cfg env i s"
  by (simp add: record_stat_def stat_notifications_def Let_def split: sum.split list.split)

lemma files_record_stat: "files (snd (record_stat cfg env i (sts, w) s)) = files w"
  by (simp add: record_stat_def Let_def split: sum.split list.split)

lemma fst_foldl_record_stat:
  "fst (foldl (record_stat cfg env i) (sts, w) ss) = stats_dict env i ss sts"
proof (induction ss arbitrary: sts w)
  case Nil
  then show ?case by (simp add: stats_dict_def)
next
  case (Cons s ss)
  obtain sts1 w1 where step: "record_stat cfg env i (sts, w) s = (sts1, w1)"
    by (cases "record_stat cfg env i (sts, w) s")
  have "sts1 = AList.update s (stat_value env i s) sts"
    using fst_record_stat [of cfg env i sts w s] step by simp
  then show ?case
    using Cons.IH [of sts1 w1] step by (simp add: stats_dict_def)
qed

lemma publish_calls_foldl_record_stat:
  "publish_calls (snd (foldl (record_stat cfg env i) (sts, w) ss)) =
     publish_calls w @ concat (map (stat_notifications cfg env i) ss)"
proof (induction ss arbitrary: sts w)
  case Nil
  then show ?case by simp
next
  case (Cons s ss)
  obtain sts1 w1 where step: "record_stat cfg env i (sts, w) s = (sts1, w1)"
    by (cases "record_stat cfg env i (sts, w) s")
  have "publish_calls w1 = publish_calls w @ stat_notifications cfg env i s"
    using publish_calls_record_stat [of cfg env i sts w s] step by simp
  then show ?case
    using Cons.IH [of sts1 w1] step by simp
qed

lemma files_foldl_record_stat:
  "files (snd (foldl (record_stat cfg env i) (sts, w) ss)) = files w"
proof (induction ss arbitrary: sts w)
  case Nil
  then show ?case by simp
next
  case (Cons s ss)
  obtain sts1 w1 where step: "record_stat cfg env i (sts, w) s = (sts1, w1)"
    by (cases "record_stat cfg env i (sts, w) s")
  have "files w1 = files w"
    using files_record_stat [of cfg env i sts w s] step by simp
  then show ?case
    using Cons.IH [of sts1 w1] step by simp
qed

lemma fst_record_instance:
  "fst (record_instance cfg env (ms, w) i) = ms @ [instance_entry cfg env i]"
  using fst_foldl_record_stat [of cfg env i "[]" w "stats cfg"]
  by (simp add: record_instance_def instance_entry_def case_prod_beta)

lemma publish_calls_record_instance:
  "publish_calls (snd (record_instance cfg env (ms, w) i)) =
     publish_calls w @ concat (map (stat_notifications cfg env i) (stats cfg))"
  using publish_calls_foldl_record_stat [of cfg env i "[]" w "stats cfg"]
  by (simp add: record_instance_def case_prod_beta)

lemma files_record_instance: "files (snd (record_instance cfg env (ms, w) i)) = files w"
  using files_foldl_record_stat [of cfg env i "[]" w "stats cfg"]
  by (simp add: record_instance_def case_prod_beta)

lemma fst_foldl_record_instance:
  "fst (foldl (record_instance cfg env) (ms, w) is) = ms @ map (instance_entry cfg env) is"
proof (induction "is" arbitrary: ms w)
  case Nil
  then show ?case by simp
next
  case (Cons i "is")
  obtain ms1 w1 where step: "record_instance cfg env (ms, w) i = (ms1, w1)"
    by (cases "record_instance cfg env (ms, w) i")
  have "ms1 = ms @ [instance_entry cfg env i]"
    using fst_record_instance [of cfg env ms w i] step by simp
  then show ?case
    using Cons.IH [of ms1 w1] step by simp
qed

lemma publish_calls_foldl_record_instance:
  "publish_calls (snd (foldl (record_instance cfg env) (ms, w) is)) =
     publish_calls w @
       concat (map (\<lambda>i. concat (map (stat_notifications cfg env i) (stats cfg))) is)"
proof (induction "is" arbitrary: ms w)
  case Nil
  then show ?case by simp
next
  case (Cons i "is")
  obtain ms1 w1 where step: "record_instance cfg env (ms, w) i = (ms1, w1)"
    by (cases "record_instance cfg env (ms, w) i")
  have "publish_calls w1 = publish_calls w @ concat (map (stat_notifications cfg env i) (stats cfg))"
    using publish_calls_record_instance [of cfg env ms w i] step by simp
  then show ?case
    using Cons.IH [of ms1 w1] step by simp
qed

lemma files_foldl_record_instance:
  "files (snd (foldl (record_instance cfg env) (ms, w) is)) = files w"
proof (induction "is" arbitrary: ms w)
  case Nil
  then show ?case by simp
next
  case (Cons i "is")
  obtain ms1 w1 where step: "record_instance cfg env (ms, w) i = (ms1, w1)"
    by (cases "record_instance cfg env (ms, w) i")
  have "files w1 = files w"
    using files_record_instance [of cfg env ms w i] step by simp
  then show ?case
    using Cons.IH [of ms1 w1] step by simp
qed

lemma fst_gather_metrics:
  "fst (gather_metrics cfg env w) =
     JObj [(''timestamp'', JStr (str_datetime (utcnow env))),
           (''metrics'', JArr (map (instance_entry cfg env) (instances cfg)))]"
  using fst_foldl_record_instance [of cfg env "[]" w "instances cfg"]
  by (simp add: gather_metrics_def case_prod_beta)

lemma publish_calls_gather_metrics:
  "publish_calls (snd (gather_metrics cfg env w)) =
     publish_calls w @
       concat (map (\<lambda>i. concat (map (stat_notifications cfg env i) (stats cfg))) (instances cfg))"
  using publish_calls_foldl_record_instance [of cfg env "[]" w "instances cfg"]
  by (simp add: gather_metrics_def case_prod_beta)

lemma files_gather_metrics: "files (snd (gather_metrics cfg env w)) = files w"
  using files_foldl_record_instance [of cfg env "[]" w "instances cfg"]
  by (simp add: gather_metrics_def case_prod_beta)

lemma record_metrics_written:
  assumes "open_append env (metrics cfg) = None"
  shows "record_metrics cfg env w =
           Returned () (append_line (metrics cfg) (Doc (fst (gather_metrics cfg env w)))
                          (snd (gather_metrics cfg env w)))"
  using assms by (simp add: record_metrics_def case_prod_beta)

lemma map_of_stats_dict:
  "map_of (stats_dict env i ss sts) s =
     (if s \<in> set ss then Some (stat_value env i s) else map_of sts s)"
  unfolding stats_dict_def
  by (induction ss arbitrary: sts) (auto simp: update_conv')

lemma keys_stats_dict:
  "fst ` set (stats_dict env i ss sts) = set ss \<union> fst ` set sts"
  unfolding stats_dict_def
  by (induction ss arbitrary: sts) (auto simp: dom_update)

lemma distinct_stats_dict:
  "distinct (map fst sts) \<Longrightarrow> distinct (map fst (stats_dict env i ss sts))"
  unfolding stats_dict_def
  by (induction ss arbitrary: sts) (auto simp: distinct_update)

lemma files_append_line:
  "files (append_line path l w) path = Some (file_lines w path @ [l])"
  by (simp add: append_line_def file_lines_def split: option.split)

lemma publish_calls_append_line [simp]:
  "publish_calls (append_line path l w) = publish_calls w"
  by (simp add: append_line_def)

lemma recorded_value_gather:
  assumes "k < length (instances cfg)" and "s \<in> set (stats cfg)"
  shows "recorded_value (fst (gather_metrics cfg env w)) k s =
           Some (stat_value env (instances cfg ! k) s)"
  using assms
  by (simp add: fst_gather_metrics instance_entry_def map_of_stats_dict)

lemma record_metrics_file:
  assumes "open_append env (metrics cfg) = None"
  shows "files (final_world (record_metrics cfg env w)) (metrics cfg) =
           Some (file_lines w (metrics cfg) @ [Doc (fst (gather_metrics cfg env w))])"
  by (simp add: record_metrics_written [OF assms] final_world_def files_append_line
      file_lines_def files_gather_metrics)

text \<open>
  Claim C9. When the write succeeds and CloudWatch answers the query for a configured
  instance and stat with a non-empty list of data points, the tick returns and the
  value in the record it appends for that pair is the \<open>Average\<close> of the first data point
  of the list, whatever the rest of the list holds.
\<close>

theorem record_metrics_first_datapoint:
  assumes "open_append env (metrics cfg) = None"
    and "k < length (instances cfg)" and "stat \<in> set (stats cfg)"
    and "get_metric_statistics env stat (instances cfg ! k) (utcnow env) = Inr (dp # dps)"
  shows "\<exists>metrics_data w'.
           record_metrics cfg env w = Returned () w' \<and>
           files w' (metrics cfg) = Some (file_lines w (metrics cfg) @ [Doc metrics_data]) \<and>
           recorded_value metrics_data k stat = Some (JNum (Average dp))"
proof -
  have "stat_value env (instances cfg ! k) stat = JNum (Average dp)"
    using assms(4) by (simp add: stat_value_def)
  then have "recorded_value (fst (gather_metrics cfg env w)) k stat = Some (JNum (Average dp))"
    using recorded_value_gather [OF assms(2,3)] by simp
  moreover have "files (append_line (metrics cfg) (Doc (fst (gather_metrics cfg env w)))
                   (snd (gather_metrics cfg env w))) (metrics cfg) =
                 Some (file_lines w (metrics cfg) @ [Doc (fst (gather_metrics cfg env w))])"
    by (simp add: files_append_line file_lines_def files_gather_metrics)
  ultimately show ?thesis
    using record_metrics_written [OF assms(1), of w] by blast
qed

text \<open>
  With data points of averages 42 and 7, the value recorded is 42.
\<close>

theorem record_metrics_first_datapoint_witness:
  "\<exists>metrics_data w'.
     record_metrics sample_config sample_env empty_world = Returned () w' \<and>
     files w' ''metrics.json'' = Some [Doc metrics_data] \<and>
     recorded_value metrics_data 0 ''CPUUtilization'' = Some (JNum 42)"
proof -
  have h1: "open_append sample_env (metrics sample_config) = None"
    by (simp add: sample_env_def example_env_def)
  have h2: "0 < length (instances sample_config)"
    by (simp add: sample_config_def example_config_def)
  have h3: "''CPUUtilization'' \<in> set (stats sample_config)"
    by (simp add: sample_config_def)
  have h4: "get_metric_statistics sample_env ''CPUUtilization'' (instances sample_config ! 0)
              (utcnow sample_env) =
            Inr (\<lparr>Timestamp = utcnow sample_env, Average = 42\<rparr> #
                 [\<lparr>Timestamp = utcnow sample_env, Average = 7\<rparr>])"
    by (simp add: sample_env_def)
  show ?thesis
    using record_metrics_first_datapoint [OF h1 h2 h3 h4, of empty_world]
    by (simp add: file_lines_def empty_world_def sample_config_def example_config_def)
qed

lemma stat_value_cases: "stat_value env i s = JNull \<or> (\<exists>x. stat_value env i s = JNum x)"
  by (simp add: stat_value_def split: sum.split list.split)

lemma values_stats_dict:
  assumes "v \<in> set (map snd (stats_dict env i ss []))"
  shows "v = JNull \<or> (\<exists>x. v = JNum x)"
proof -
  from assms obtain s where mem: "(s, v) \<in> set (stats_dict env i ss [])"
    by auto
  have "distinct (map fst (stats_dict env i ss []))"
    by (simp add: distinct_stats_dict)
  then have "map_of (stats_dict env i ss []) s = Some v"
    using mem by simp
  then have "v = stat_value env i s"
    by (simp add: map_of_stats_dict split: if_splits)
  then show ?thesis
    using stat_value_cases [of env i s] by simp
qed

text \<open>
  Claim C5. A tick that returns has appended exactly one line to the metrics file: a
  record whose \<open>metrics\<close> list has one entry per configured instance, in order, each
  with a \<open>stats\<close> dictionary whose keys are exactly the configured stats, once each,
  and whose values are numbers or \<open>null\<close>. Nothing is assumed of the answers of
  CloudWatch.
\<close>

theorem record_metrics_uniform_record:
  assumes "record_metrics cfg env w = Returned u w'"
  shows "\<exists>ms. files w' (metrics cfg) =
                 Some (file_lines w (metrics cfg) @
                   [Doc (JObj [(''timestamp'', JStr (str_datetime (utcnow env))),
                               (''metrics'', JArr ms)])]) \<and>
              length ms = length (instances cfg) \<and>
              (\<forall>k < length (instances cfg). \<exists>sts.
                 ms ! k = JObj [(''instance_id'', JStr (instances cfg ! k)), (''stats'', JObj sts)] \<and>
                 distinct (map fst sts) \<and> set (map fst sts) = set (stats cfg) \<and>
                 (\<forall>v \<in> set (map snd sts). v = JNull \<or> (\<exists>x. v = JNum x)))"
proof -
  have ok: "open_append env (metrics cfg) = None"
    using assms by (simp add: record_metrics_def case_prod_beta Let_def split: option.splits)
  have w': "w' = append_line (metrics cfg) (Doc (fst (gather_metrics cfg env w)))
                   (snd (gather_metrics cfg env w))"
    using assms record_metrics_written [OF ok, of w] by simp
  let ?ms = "map (instance_entry cfg env) (instances cfg)"
  have written: "files w' (metrics cfg) =
                Some (file_lines w (metrics cfg) @
                  [Doc (JObj [(''timestamp'', JStr (str_datetime (utcnow env))),
                              (''metrics'', JArr ?ms)])])"
    by (simp add: w' files_append_line file_lines_def files_gather_metrics fst_gather_metrics)
  have entries: "\<forall>k < length (instances cfg). \<exists>sts.
                 ?ms ! k = JObj [(''instance_id'', JStr (instances cfg ! k)), (''stats'', JObj sts)] \<and>
                 distinct (map fst sts) \<and> set (map fst sts) = set (stats cfg) \<and>
                 (\<forall>v \<in> set (map snd sts). v = JNull \<or> (\<exists>x. v = JNum x))"
  proof (intro allI impI)
    fix k assume k: "k < length (instances cfg)"
    let ?sts = "stats_dict env (instances cfg ! k) (stats cfg) []"
    have "?ms ! k = JObj [(''instance_id'', JStr (instances cfg ! k)), (''stats'', JObj ?sts)]"
      using k by (simp add: instance_entry_def)
    moreover have "distinct (map fst ?sts)"
      by (simp add: distinct_stats_dict)
    moreover have "set (map fst ?sts) = set (stats cfg)"
      using keys_stats_dict [of env "instances cfg ! k" "stats cfg" "[]"] by simp
    moreover have "\<forall>v \<in> set (map snd ?sts). v = JNull \<or> (\<exists>x. v = JNum x)"
      using values_stats_dict by blast
    ultimately show "\<exists>sts.
                 ?ms ! k = JObj [(''instance_id'', JStr (instances cfg ! k)), (''stats'', JObj sts)] \<and>
                 distinct (map fst sts) \<and> set (map fst sts) = set (stats cfg) \<and>
                 (\<forall>v \<in> set (map snd sts). v = JNull \<or> (\<exists>x. v = JNum x))"
      by blast
  qed
  show ?thesis
    using written entries by (intro exI [of _ ?ms]) simp
qed

lemma example_env_simps:
  "get_metric_statistics example_env = (\<lambda>stat instance_id t. Inr [])"
  "put_metric_alarm example_env = (\<lambda>a. None)"
  "sns_create_topic example_env = (\<lambda>n. Inr ''arn:topic'')"
  "sns_subscribe example_env = (\<lambda>t e. None)"
  "sns_publish example_env = (\<lambda>p. None)"
  "open_append example_env = (\<lambda>p. None)"
  by (simp_all add: example_env_def)

lemma str_datetime_example: "str_datetime (utcnow example_env) = ''2024-01-01 00:00:00''"
  by code_simp

text \<open>
  Claim C4 as it is written fails: CloudWatch returns no data point for the one
  configured pair, the tick records \<open>null\<close> and returns, and no call of
  \<^verbatim>\<open>sns.publish\<close> was made.
\<close>

theorem record_metrics_empty_not_notified_counterexample:
  "record_metrics example_config example_env empty_world =
     Returned ()
       \<lparr>files = [''metrics.json'' \<mapsto>
          [Doc (JObj [(''timestamp'', JStr ''2024-01-01 00:00:00''),
                      (''metrics'', JArr [JObj [(''instance_id'', JStr ''i-1''),
                         (''stats'', JObj [(''CPUUtilization'', JNull)])]])])]],
        alarms = [], subscriptions = [], publish_calls = [], error_log = [], stdout = []\<rparr>"
  by (simp add: record_metrics_def gather_metrics_def record_instance_def record_stat_def
      example_config_def example_env_simps empty_world_def append_line_def str_datetime_example)

lemma sample_env_simps:
  "get_metric_statistics sample_env = (\<lambda>stat instance_id t.
        if stat = ''CPUUtilization''
        then Inr [\<lparr>Timestamp = t, Average = 42\<rparr>, \<lparr>Timestamp = t, Average = 7\<rparr>]
        else if stat = ''NetworkIn'' then Inr []
        else Inl ''Throttling'')"
  "sns_publish sample_env = (\<lambda>p. None)"
  "open_append sample_env = (\<lambda>p. None)"
  "utcnow sample_env = utcnow example_env"
  by (simp_all add: sample_env_def example_env_def)

text \<open>
  The tick on three stats, of which one has no data and one fails.
\<close>

theorem record_metrics_uniform_record_witness:
  "\<exists>ms. files (final_world (record_metrics sample_config sample_env empty_world)) ''metrics.json'' =
          Some [Doc (JObj [(''timestamp'', JStr ''2024-01-01 00:00:00''), (''metrics'', JArr ms)])] \<and>
        length ms = 1 \<and>
        (\<exists>sts. ms ! 0 = JObj [(''instance_id'', JStr ''i-1''), (''stats'', JObj sts)] \<and>
           distinct (map fst sts) \<and>
           set (map fst sts) = {''CPUUtilization'', ''NetworkIn'', ''DiskReadOps''} \<and>
           (\<forall>v. v \<in> set (map snd sts) \<longrightarrow> v = JNull \<or> (\<exists>x. v = JNum x)))"
proof -
  have ret: "record_metrics sample_config sample_env empty_world =
          Returned () (final_world (record_metrics sample_config sample_env empty_world))"
    by (simp add: record_metrics_def case_prod_beta sample_env_simps final_world_def)
  show ?thesis
    using record_metrics_uniform_record [OF ret]
    by (simp add: sample_config_def example_config_def sample_env_simps str_datetime_example
        file_lines_def empty_world_def Ball_def)
qed

text \<open>
  Claim C4, as the code has it. When the write succeeds the tick returns with a value
  for every configured pair: \<open>null\<close> where CloudWatch returned no data point and where
  the call raised \<open>ClientError\<close>, the one exception the loop body catches. The calls of
  \<^verbatim>\<open>sns.publish\<close> it made are exactly one error notification per pair whose call raised
  \<open>ClientError\<close>, naming the stat and the instance, in the order of the loops; a pair
  with no data point adds none.
\<close>

theorem record_metrics_absent_values:
  assumes "open_append env (metrics cfg) = None"
  shows "\<exists>metrics_data w'.
           record_metrics cfg env w = Returned () w' \<and>
           files w' (metrics cfg) = Some (file_lines w (metrics cfg) @ [Doc metrics_data]) \<and>
           (\<forall>k < length (instances cfg). \<forall>s \<in> set (stats cfg).
              recorded_value metrics_data k s =
                Some (case get_metric_statistics env s (instances cfg ! k) (utcnow env) of
                        Inr (dp # dps) \<Rightarrow> JNum (Average dp)
                      | Inr [] \<Rightarrow> JNull
                      | Inl e \<Rightarrow> JNull)) \<and>
           publish_calls w' = publish_calls w @
             concat (map (\<lambda>i. concat (map (\<lambda>s.
               case get_metric_statistics env s i (utcnow env) of
                 Inl e \<Rightarrow>
                   [\<lparr>TopicArn = error_topic_arn cfg,
                      Subject = ''Error Notification: EC2 Monitoring'',
                      Message = ''Error getting metric statistics for '' @ s @ '' on '' @ i @ '': '' @ e\<rparr>]
               | Inr dps \<Rightarrow> []) (stats cfg))) (instances cfg))"
proof -
  let ?g = "gather_metrics cfg env w"
  let ?w' = "append_line (metrics cfg) (Doc (fst ?g)) (snd ?g)"
  have ret: "record_metrics cfg env w = Returned () ?w'"
    by (rule record_metrics_written [OF assms])
  have written: "files ?w' (metrics cfg) = Some (file_lines w (metrics cfg) @ [Doc (fst ?g)])"
    by (simp add: files_append_line file_lines_def files_gather_metrics)
  have vals: "\<forall>k < length (instances cfg). \<forall>s \<in> set (stats cfg).
              recorded_value (fst ?g) k s =
                Some (case get_metric_statistics env s (instances cfg ! k) (utcnow env) of
                        Inr (dp # dps) \<Rightarrow> JNum (Average dp)
                      | Inr [] \<Rightarrow> JNull
                      | Inl e \<Rightarrow> JNull)"
    by (simp add: recorded_value_gather stat_value_def)
  have notif: "stat_notifications cfg env = (\<lambda>i s.
               case get_metric_statistics env s i (utcnow env) of
                 Inl e \<Rightarrow>
                   [\<lparr>TopicArn = error_topic_arn cfg,
                      Subject = ''Error Notification: EC2 Monitoring'',
                      Message = ''Error getting metric statistics for '' @ s @ '' on '' @ i @ '': '' @ e\<rparr>]
               | Inr dps \<Rightarrow> [])"
    by (intro ext) (simp add: stat_notifications_def error_publication_def split: sum.split)
  have calls: "publish_calls ?w' = publish_calls w @
             concat (map (\<lambda>i. concat (map (\<lambda>s.
               case get_metric_statistics env s i (utcnow env) of
                 Inl e \<Rightarrow>
                   [\<lparr>TopicArn = error_topic_arn cfg,
                      Subject = ''Error Notification: EC2 Monitoring'',
                      Message = ''Error getting metric statistics for '' @ s @ '' on '' @ i @ '': '' @ e\<rparr>]
               | Inr dps \<Rightarrow> []) (stats cfg))) (instances cfg))"
    by (simp add: publish_calls_gather_metrics notif)
  show ?thesis
    using ret written vals calls by blast
qed

text \<open>
  One stat with data, one without, one failing: a single notification, for the failing
  one.
\<close>

theorem record_metrics_absent_values_witness:
  "\<exists>metrics_data w'.
     record_metrics sample_config sample_env empty_world = Returned () w' \<and>
     files w' ''metrics.json'' = Some [Doc metrics_data] \<and>
     recorded_value metrics_data 0 ''CPUUtilization'' = Some (JNum 42) \<and>
     recorded_value metrics_data 0 ''NetworkIn'' = Some JNull \<and>
     recorded_value metrics_data 0 ''DiskReadOps'' = Some JNull \<and>
     publish_calls w' =
       [\<lparr>TopicArn = ''arn:errors'', Subject = ''Error Notification: EC2 Monitoring'',
          Message = ''Error getting metric statistics for DiskReadOps on i-1: Throttling''\<rparr>]"
proof -
  have h: "open_append sample_env (metrics sample_config) = None"
    by (simp add: sample_env_simps)
  show ?thesis
    using record_metrics_absent_values [OF h, of empty_world]
    by (simp add: sample_config_def example_config_def sample_env_simps
        file_lines_def empty_world_def)
qed

section \<open>The weekly report\<close>

















lemma set_first_occurrences [simp]: "set (first_occurrences xs) = set xs"
  by (induction xs) auto




lemma history_config_simps:
  "stats history_config = [''CPUUtilization'', ''NetworkIn'']"
  "data_file history_config = ''metrics.json''"
  "error_topic_arn history_config = ''arn:errors''"
  by (simp_all add: history_config_def example_config_def)


lemma entry_stat_history:
  "entry_stat (history_json i) ''CPUUtilization'' = Inr (JInt i)"
  "entry_stat (history_json i) ''NetworkIn'' = Inr JNull"
  by (simp_all add: entry_stat_def history_json_def)





lemma example_config_simps:
  "instances example_config = [''i-1'']"
  "stats example_config = [''CPUUtilization'']"
  "error_topic_arn example_config = ''arn:errors''"
  "metrics example_config = ''metrics.json''"
  "data_file example_config = ''metrics.json''"
  by (simp_all add: example_config_def)


lemma stat_values_fails:
  assumes "entry \<in> set data" and "entry_stat entry s = Inl e0"
  shows "\<exists>e. stat_values s data = Inl e"
  using assms by (induction data) (auto split: sum.splits)

lemma summarize_stats_fails:
  assumes "s \<in> set ss" and "entry \<in> set data" and "entry_stat entry s = Inl e0"
  shows "\<exists>e. summarize_stats ar data ss acc = Inl e"
  using assms(1)
proof (induction ss arbitrary: acc)
  case Nil
  then show ?case by simp
next
  case (Cons t ss)
  show ?case
  proof (cases "t = s")
    case True
    then show ?thesis
      using stat_values_fails [OF assms(2,3)] by auto
  next
    case False
    then have "s \<in> set ss"
      using Cons.prems by simp
    then show ?thesis
      using Cons.IH by (auto split: sum.splits)
  qed
qed

text \<open>
  Claim C10. The report reads \<^verbatim>\<open>entry['metrics'][0]['stats'][stat]\<close> for every parsed line
  and every configured stat with no guard: when this subscript chain fails for some line
  of the log and some configured stat (the \<open>metrics\<close> list is empty, or a key is
  missing), \<^verbatim>\<open>send_weekly_summary\<close> raises and leaves the state as it found it: no call
  of \<^verbatim>\<open>sns.publish\<close>, no notification, nothing logged.
\<close>

theorem send_weekly_summary_unguarded:
  assumes "files w (data_file cfg) = Some ls" and "loads_lines ls = Inr data"
    and "entry \<in> set data" and "s \<in> set (stats cfg)" and "entry_stat entry s = Inl e0"
  shows "\<exists>e. send_weekly_summary ar cfg env topic_arn w = Raised e w"
  using summarize_stats_fails [OF assms(4,3,5), of ar "[]"] assms(1,2)
  by (auto simp: send_weekly_summary_def)

text \<open>
  On that log the report raises \<open>IndexError\<close> and the state, with its empty list of
  publish calls, is unchanged.
\<close>

theorem send_weekly_summary_unguarded_witness:
  "send_weekly_summary sample_arith history_config example_env ''arn:topic'' broken_world =
     Raised (IndexError ''list index out of range'') broken_world \<and>
   publish_calls broken_world = []"
proof -
  have h1: "files broken_world (data_file history_config) =
     Some [Doc (history_json 10), Doc empty_metrics_json]"
    by (simp add: broken_world_def history_config_simps)
  have h2: "loads_lines [Doc (history_json 10), Doc empty_metrics_json] =
     Inr [history_json 10, empty_metrics_json]"
    by simp
  have h3: "empty_metrics_json \<in> set [history_json 10, empty_metrics_json]"
    by simp
  have h4: "''CPUUtilization'' \<in> set (stats history_config)"
    by (simp add: history_config_simps)
  have h5: "entry_stat empty_metrics_json ''CPUUtilization'' =
              Inl (IndexError ''list index out of range'')"
    by (simp add: entry_stat_def empty_metrics_json_def)
  from send_weekly_summary_unguarded [OF h1 h2 h3 h4 h5, of sample_arith example_env "''arn:topic''"]
  obtain e where
    raised: "send_weekly_summary sample_arith history_config example_env ''arn:topic''
               broken_world = Raised e broken_world"
    by blast
  have "send_weekly_summary sample_arith history_config example_env ''arn:topic''
               broken_world = Raised (IndexError ''list index out of range'') broken_world"
    using h1 by (simp add: send_weekly_summary_def history_config_simps entry_stat_history h5)
  moreover have "publish_calls broken_world = []"
    by (simp add: broken_world_def empty_world_def)
  ultimately show ?thesis
    using raised by simp
qed

section \<open>The loop after a failed write, and the file the report reads\<close>

lemma error_log_notify:
  "set (error_log w) \<subseteq> set (error_log (notify_stakeholders cfg env msg w))"
  by (auto simp: notify_stakeholders_def Let_def logging_error_def split: option.split)

lemma record_metrics_write_fails:
  assumes "open_append env (metrics cfg) = Some e"
  shows "record_metrics cfg env w =
           Raised (IOError e)
             (notify_stakeholders cfg env (''Error writing metrics data to file: '' @ e)
               (logging_error (''Error writing metrics data to file: '' @ e)
                 (snd (gather_metrics cfg env w))))"
  using assms by (simp add: record_metrics_def case_prod_beta Let_def)

text \<open>
  Claim C3, as the code has it. When the write of the metrics file fails, the tick logs
  the error, calls \<^verbatim>\<open>sns.publish\<close> with it, writes nothing and raises \<open>IOError\<close>. Neither
  \<^verbatim>\<open>run_pending\<close> nor the loop of \<^verbatim>\<open>main\<close> catches it: the loop ends with that exception
  in the state the failing tick left, whatever jobs were due with it or after it.
\<close>

theorem record_metrics_write_failure_ends_loop:
  assumes "open_append env (metrics cfg) = Some e"
  shows "\<exists>w1. record_metrics cfg env w = Raised (IOError e) w1 \<and>
              files w1 = files w \<and>
              ''Error writing metrics data to file: '' @ e \<in> set (error_log w1) \<and>
              \<lparr>TopicArn = error_topic_arn cfg, Subject = ''Error Notification: EC2 Monitoring'',
                Message = ''Error writing metrics data to file: '' @ e\<rparr> \<in> set (publish_calls w1) \<and>
              main_loop ar cfg topic_arn (((RecordMetrics, env) # due) # later) w =
                Raised (IOError e) w1"
proof -
  let ?msg = "''Error writing metrics data to file: '' @ e"
  let ?w0 = "logging_error ?msg (snd (gather_metrics cfg env w))"
  let ?w1 = "notify_stakeholders cfg env ?msg ?w0"
  have raised: "record_metrics cfg env w = Raised (IOError e) ?w1"
    by (rule record_metrics_write_fails [OF assms])
  have unchanged: "files ?w1 = files w"
    by (simp add: files_gather_metrics)
  have "?msg \<in> set (error_log ?w0)"
    by (simp add: logging_error_def)
  then have logged: "?msg \<in> set (error_log ?w1)"
    using error_log_notify [of ?w0 cfg env ?msg] by blast
  have notified: "\<lparr>TopicArn = error_topic_arn cfg, Subject = ''Error Notification: EC2 Monitoring'',
                Message = ?msg\<rparr> \<in> set (publish_calls ?w1)"
    by (simp add: error_publication_def)
  have ended: "main_loop ar cfg topic_arn (((RecordMetrics, env) # due) # later) w =
                Raised (IOError e) ?w1"
    by (simp add: run_job_def raised)
  show ?thesis
    using raised unchanged logged notified ended by blast
qed

lemma full_disk_env_simps:
  "get_metric_statistics full_disk_env = (\<lambda>stat instance_id t. Inr [])"
  "sns_publish full_disk_env = (\<lambda>p. None)"
  "open_append full_disk_env = (\<lambda>path. Some ''No space left on device'')"
  by (simp_all add: full_disk_env_def example_env_def)

lemma split_config_simps:
  "instances split_config = [''i-1'']"
  "stats split_config = [''CPUUtilization'']"
  "error_topic_arn split_config = ''arn:errors''"
  "metrics split_config = ''metrics.json''"
  "data_file split_config = ''data.json''"
  by (simp_all add: split_config_def example_config_def)

text \<open>
  Claim C3 as it is written fails. Two iterations of the loop have the tick due; the
  write fails in the first and would succeed in the second. The loop ends in the first
  with \<open>IOError\<close>: the second tick never runs and the metrics file is never written.
\<close>

theorem main_loop_does_not_survive_write_failure_counterexample:
  "main_loop sample_arith example_config ''arn:topic''
     [[(RecordMetrics, full_disk_env)], [(RecordMetrics, example_env)]] empty_world =
   Raised (IOError ''No space left on device'')
     \<lparr>files = Map.empty, alarms = [], subscriptions = [],
      publish_calls =
        [\<lparr>TopicArn = ''arn:errors'', Subject = ''Error Notification: EC2 Monitoring'',
           Message = ''Error writing metrics data to file: No space left on device''\<rparr>],
      error_log = [''Error writing metrics data to file: No space left on device''],
      stdout = []\<rparr>"
  by (simp add: run_job_def record_metrics_def gather_metrics_def record_instance_def
      record_stat_def notify_stakeholders_def logging_error_def full_disk_env_simps
      example_config_simps empty_world_def Let_def)

text \<open>The tick that fails to write, followed in the same loop by a tick that would not.\<close>

theorem record_metrics_write_failure_ends_loop_witness:
  "\<exists>w1. record_metrics example_config full_disk_env empty_world =
           Raised (IOError ''No space left on device'') w1 \<and>
        files w1 = Map.empty \<and>
        ''Error writing metrics data to file: No space left on device'' \<in> set (error_log w1) \<and>
        \<lparr>TopicArn = ''arn:errors'', Subject = ''Error Notification: EC2 Monitoring'',
          Message = ''Error writing metrics data to file: No space left on device''\<rparr>
          \<in> set (publish_calls w1) \<and>
        main_loop sample_arith example_config ''arn:topic''
          [[(RecordMetrics, full_disk_env)], [(RecordMetrics, example_env)]] empty_world =
          Raised (IOError ''No space left on device'') w1"
proof -
  have h: "open_append full_disk_env (metrics example_config) = Some ''No space left on device''"
    by (simp add: full_disk_env_simps)
  show ?thesis
    using record_metrics_write_failure_ends_loop [OF h, of empty_world sample_arith
        "''arn:topic''" "[]" "[[(RecordMetrics, example_env)]]"]
    by (simp add: example_config_simps empty_world_def)
qed

text \<open>
  Claim C2 fails on the code: the collector appends to the file named by
  \<^verbatim>\<open>config['metrics']\<close>, the report opens the file named by \<^verbatim>\<open>config['data_file']\<close>. With
  two names, a tick writes its record to the first file, and the report that follows
  does not read it: here the second file does not exist and the report raises.
\<close>

theorem report_reads_other_file:
  "files (final_world (record_metrics split_config example_env empty_world)) ''metrics.json'' =
     Some [Doc (JObj [(''timestamp'', JStr ''2024-01-01 00:00:00''),
                      (''metrics'', JArr [JObj [(''instance_id'', JStr ''i-1''),
                         (''stats'', JObj [(''CPUUtilization'', JNull)])]])])] \<and>
   send_weekly_summary sample_arith split_config example_env ''arn:topic''
     (final_world (record_metrics split_config example_env empty_world)) =
     Raised (IOError ''No such file or directory'')
       (final_world (record_metrics split_config example_env empty_world))"
proof -
  have tick: "record_metrics split_config example_env empty_world =
     Returned ()
       \<lparr>files = [''metrics.json'' \<mapsto>
          [Doc (JObj [(''timestamp'', JStr ''2024-01-01 00:00:00''),
                      (''metrics'', JArr [JObj [(''instance_id'', JStr ''i-1''),
                         (''stats'', JObj [(''CPUUtilization'', JNull)])]])])]],
        alarms = [], subscriptions = [], publish_calls = [], error_log = [], stdout = []\<rparr>"
    by (simp add: record_metrics_def gather_metrics_def record_instance_def record_stat_def
        split_config_simps example_env_simps empty_world_def append_line_def
        str_datetime_example)
  show ?thesis
    by (simp add: tick final_world_def send_weekly_summary_def split_config_simps)
qed

section \<open>The metrics log\<close>

lemma length_digits [simp]: "length (digits w n) = w"
  by (induction w arbitrary: n) simp_all

lemma digit_char_0: "digit_char 0 = CHR ''0''"
  by code_simp

lemma digits_0: "digits w 0 = replicate w (CHR ''0'')"
  by (induction w) (simp_all add: digit_char_0 replicate_append_same)

lemma length_dec_pos: "0 < length (dec n)"
  by (subst dec.simps) simp

lemma length_dec_le: "n < 10 ^ w \<Longrightarrow> 0 < w \<Longrightarrow> length (dec n) \<le> w"
proof (induction w arbitrary: n)
  case 0
  then show ?case by simp
next
  case (Suc w)
  show ?case
  proof (cases "n < 10")
    case True
    then show ?thesis by (subst dec.simps) simp
  next
    case False
    then have "n div 10 < 10 ^ w" and "0 < w"
      using Suc.prems by (auto simp: less_mult_imp_div_less intro: Nat.gr0I)
    then have "length (dec (n div 10)) \<le> w"
      by (rule Suc.IH)
    then show ?thesis
      using False by (subst dec.simps) simp
  qed
qed

lemma zpad_digits: "n < 10 ^ w \<Longrightarrow> 0 < w \<Longrightarrow> zpad w n = digits w n"
proof (induction w arbitrary: n)
  case 0
  then show ?case by simp
next
  case (Suc w)
  show ?case
  proof (cases "n < 10")
    case True
    then have "dec n = [digit_char n]"
      by (subst dec.simps) simp
    then show ?thesis
      using True by (simp add: zpad_def digits_0)
  next
    case False
    then have small: "n div 10 < 10 ^ w" and pos: "0 < w"
      using Suc.prems by (auto simp: less_mult_imp_div_less intro: Nat.gr0I)
    have d: "dec n = dec (n div 10) @ [digit_char (n mod 10)]"
      using False by (subst dec.simps) simp
    have "length (dec (n div 10)) \<le> w"
      using small pos by (rule length_dec_le)
    then have "zpad (Suc w) n = zpad w (n div 10) @ [digit_char (n mod 10)]"
      by (simp add: zpad_def d Suc_diff_le)
    then show ?thesis
      using Suc.IH [OF small pos] by simp
  qed
qed

lemma digit_char_less: "a < 10 \<Longrightarrow> b < 10 \<Longrightarrow> digit_char a < digit_char b \<longleftrightarrow> a < b"
  by (simp add: digit_char_def less_char_def)

lemma append_less_same_length:
  fixes x y :: string
  shows "length x = length y \<Longrightarrow> x < y \<Longrightarrow> x @ s < y @ t"
  by (induction x y rule: list_induct2) auto

lemma append_le_same_prefix:
  fixes x :: string
  shows "s \<le> t \<Longrightarrow> x @ s \<le> x @ t"
  by (induction x) auto

lemma append_less_same_prefix:
  fixes x :: string
  shows "s < t \<Longrightarrow> x @ s < x @ t"
  by (induction x) auto

lemma digits_less: "n < m \<Longrightarrow> m < 10 ^ w \<Longrightarrow> digits w n < digits w m"
proof (induction w arbitrary: n m)
  case 0
  then show ?case by simp
next
  case (Suc w)
  have m10: "m div 10 < 10 ^ w"
    using Suc.prems(2) by (simp add: less_mult_imp_div_less)
  show ?case
  proof (cases "n div 10 < m div 10")
    case True
    then have "digits w (n div 10) < digits w (m div 10)"
      using m10 by (rule Suc.IH)
    then show ?thesis
      by (simp add: append_less_same_length)
  next
    case False
    then have eq: "n div 10 = m div 10"
      using Suc.prems(1) by (meson div_le_mono less_imp_le_nat linorder_neqE_nat not_less)
    then have "n mod 10 < m mod 10"
      using Suc.prems(1) by (metis add_less_cancel_left mult_div_mod_eq)
    then have "[digit_char (n mod 10)] < [digit_char (m mod 10)]"
      by (simp add: digit_char_less)
    then have "digits w (m div 10) @ [digit_char (n mod 10)] <
               digits w (m div 10) @ [digit_char (m mod 10)]"
      by (rule append_less_same_prefix)
    then show ?thesis
      using eq by simp
  qed
qed

lemma field_le:
  assumes "n < 10 ^ w" and "m < 10 ^ w" and "0 < w"
    and "n < m \<or> (n = m \<and> s \<le> t)"
  shows "zpad w n @ sep @ s \<le> zpad w m @ sep @ t"
proof -
  have z: "zpad w n = digits w n" "zpad w m = digits w m"
    using assms(1-3) by (simp_all add: zpad_digits)
  from assms(4) show ?thesis
  proof
    assume "n < m"
    then have "digits w n < digits w m"
      using assms(2) by (rule digits_less)
    then have "digits w n @ (sep @ s) < digits w m @ (sep @ t)"
      by (simp add: append_less_same_length)
    then show ?thesis
      using z by simp
  next
    assume "n = m \<and> s \<le> t"
    then have "sep @ s \<le> sep @ t" and "n = m"
      by (simp_all add: append_le_same_prefix)
    then have "digits w m @ (sep @ s) \<le> digits w m @ (sep @ t)"
      by (simp add: append_le_same_prefix)
    then show ?thesis
      using z \<open>n = m\<close> by simp
  qed
qed

lemma fraction_le:
  assumes "a \<le> b" and "b < 1000000"
  shows "(if a \<noteq> 0 then ''.'' @ zpad 6 a else []) \<le> (if b \<noteq> 0 then ''.'' @ zpad 6 b else [])"
proof (cases "a = 0")
  case True
  then show ?thesis by simp
next
  case False
  then have b: "b \<noteq> 0"
    using assms(1) by simp
  have "zpad 6 a @ [] @ [] \<le> zpad 6 b @ [] @ []"
    using assms by (intro field_le) auto
  then show ?thesis
    using False b by simp
qed

lemma str_datetime_mono:
  assumes "valid_datetime a" and "valid_datetime b" and "dt_le a b"
  shows "str_datetime a \<le> str_datetime b"
proof -
  let ?fa = "if microsecond a \<noteq> 0 then ''.'' @ zpad 6 (microsecond a) else []"
  let ?fb = "if microsecond b \<noteq> 0 then ''.'' @ zpad 6 (microsecond b) else []"
  let ?s6a = "zpad 2 (second a) @ [] @ ?fa" and ?s6b = "zpad 2 (second b) @ [] @ ?fb"
  let ?s5a = "zpad 2 (minute a) @ '':'' @ ?s6a" and ?s5b = "zpad 2 (minute b) @ '':'' @ ?s6b"
  let ?s4a = "zpad 2 (hour a) @ '':'' @ ?s5a" and ?s4b = "zpad 2 (hour b) @ '':'' @ ?s5b"
  let ?s3a = "zpad 2 (day a) @ '' '' @ ?s4a" and ?s3b = "zpad 2 (day b) @ '' '' @ ?s4b"
  let ?s2a = "zpad 2 (month a) @ ''-'' @ ?s3a" and ?s2b = "zpad 2 (month b) @ ''-'' @ ?s3b"
  let ?s1a = "zpad 4 (year a) @ ''-'' @ ?s2a" and ?s1b = "zpad 4 (year b) @ ''-'' @ ?s2b"
  let ?c6 = "second a < second b \<or> second a = second b \<and> microsecond a \<le> microsecond b"
  let ?c5 = "minute a < minute b \<or> minute a = minute b \<and> ?c6"
  let ?c4 = "hour a < hour b \<or> hour a = hour b \<and> ?c5"
  let ?c3 = "day a < day b \<or> day a = day b \<and> ?c4"
  let ?c2 = "month a < month b \<or> month a = month b \<and> ?c3"
  let ?c1 = "year a < year b \<or> year a = year b \<and> ?c2"
  have va: "year a < 10 ^ 4" "month a < 10 ^ 2" "day a < 10 ^ 2" "hour a < 10 ^ 2"
    "minute a < 10 ^ 2" "second a < 10 ^ 2"
    using assms(1) by (simp_all add: valid_datetime_def)
  have vb: "year b < 10 ^ 4" "month b < 10 ^ 2" "day b < 10 ^ 2" "hour b < 10 ^ 2"
    "minute b < 10 ^ 2" "second b < 10 ^ 2" "microsecond b < 1000000"
    using assms(2) by (simp_all add: valid_datetime_def)
  have c1: ?c1
    using assms(3) by (auto simp: dt_le_def dt_key_def)
  have f: "?fa \<le> ?fb" if "microsecond a \<le> microsecond b"
    using that vb(7) by (rule fraction_le)
  have s6: "?s6a \<le> ?s6b" if c: ?c6
  proof (rule field_le [OF va(6) vb(6)])
    show "0 < (2::nat)" by simp
    show "second a < second b \<or> (second a = second b \<and> ?fa \<le> ?fb)"
      using c f by blast
  qed
  have s5: "?s5a \<le> ?s5b" if c: ?c5
  proof (rule field_le [OF va(5) vb(5)])
    show "0 < (2::nat)" by simp
    show "minute a < minute b \<or> (minute a = minute b \<and> ?s6a \<le> ?s6b)"
      using c s6 by blast
  qed
  have s4: "?s4a \<le> ?s4b" if c: ?c4
  proof (rule field_le [OF va(4) vb(4)])
    show "0 < (2::nat)" by simp
    show "hour a < hour b \<or> (hour a = hour b \<and> ?s5a \<le> ?s5b)"
      using c s5 by blast
  qed
  have s3: "?s3a \<le> ?s3b" if c: ?c3
  proof (rule field_le [OF va(3) vb(3)])
    show "0 < (2::nat)" by simp
    show "day a < day b \<or> (day a = day b \<and> ?s4a \<le> ?s4b)"
      using c s4 by blast
  qed
  have s2: "?s2a \<le> ?s2b" if c: ?c2
  proof (rule field_le [OF va(2) vb(2)])
    show "0 < (2::nat)" by simp
    show "month a < month b \<or> (month a = month b \<and> ?s3a \<le> ?s3b)"
      using c s3 by blast
  qed
  have s1: "?s1a \<le> ?s1b"
  proof (rule field_le [OF va(1) vb(1)])
    show "0 < (4::nat)" by simp
    show "year a < year b \<or> (year a = year b \<and> ?s2a \<le> ?s2b)"
      using c1 s2 by blast
  qed
  then show ?thesis
    by (simp add: str_datetime_def)
qed

lemma parse_stats_values:
  assumes "\<forall>v \<in> set (map snd sts). v = JNull \<or> (\<exists>x. v = JNum x)"
  shows "\<exists>r. parse_stats sts = Some r"
  using assms
proof (induction sts)
  case Nil
  then show ?case by simp
next
  case (Cons kv sts)
  obtain k v where kv: "kv = (k, v)"
    by (cases kv)
  have "v = JNull \<or> (\<exists>x. v = JNum x)"
    using Cons.prems kv by simp
  then obtain x where "parse_value v = Some x"
    by auto
  moreover obtain r where "parse_stats sts = Some r"
    using Cons by auto
  ultimately show ?case
    using kv by simp
qed

lemma parse_instance_entry: "\<exists>r. parse_entry (instance_entry cfg env i) = Some (i, r)"
proof -
  obtain r where "parse_stats (stats_dict env i (stats cfg) []) = Some r"
    using parse_stats_values values_stats_dict by blast
  then show ?thesis
    by (simp add: parse_entry_def instance_entry_def)
qed

lemma parse_instance_entries:
  "\<exists>r. parse_entries (map (instance_entry cfg env) is) = Some r \<and> map fst r = is"
proof (induction "is")
  case Nil
  then show ?case by simp
next
  case (Cons i "is")
  then obtain r where r: "parse_entries (map (instance_entry cfg env) is) = Some r" "map fst r = is"
    by blast
  obtain e where "parse_entry (instance_entry cfg env i) = Some (i, e)"
    using parse_instance_entry by blast
  then have "parse_entries (map (instance_entry cfg env) (i # is)) = Some ((i, e) # r)"
    using r by simp
  then show ?case
    using r by simp
qed

lemma parse_tick_record:
  "\<exists>r. parse_metric_record (tick_record cfg env) = Some (str_datetime (utcnow env), r)"
proof -
  obtain r where "parse_entries (map (instance_entry cfg env) (instances cfg)) = Some r"
    using parse_instance_entries by blast
  then show ?thesis
    by (simp add: parse_metric_record_def tick_record_def)
qed

lemma line_timestamp_tick_record:
  "line_timestamp (Doc (tick_record cfg env)) = str_datetime (utcnow env)"
  using parse_tick_record [of cfg env] by (auto simp: line_timestamp_def parse_line_def)

lemma file_lines_append_line:
  "file_lines (append_line path l w) path = file_lines w path @ [l]"
  by (simp add: file_lines_def append_line_def split: option.split)

lemma file_lines_gather_metrics:
  "file_lines (snd (gather_metrics cfg env w)) path = file_lines w path"
  by (simp add: file_lines_def files_gather_metrics)

lemma record_metrics_returned:
  assumes "record_metrics cfg env w = Returned u w'"
  shows "file_lines w' (metrics cfg) = file_lines w (metrics cfg) @ [Doc (tick_record cfg env)]"
proof -
  have ok: "open_append env (metrics cfg) = None"
    using assms by (simp add: record_metrics_def case_prod_beta Let_def split: option.splits)
  have "w' = append_line (metrics cfg) (Doc (fst (gather_metrics cfg env w)))
                   (snd (gather_metrics cfg env w))"
    using assms record_metrics_written [OF ok, of w] by simp
  then show ?thesis
    by (simp add: file_lines_append_line fst_gather_metrics tick_record_def
        file_lines_gather_metrics)
qed

lemma ticks_returned:
  assumes "ticks cfg envs w = Returned u w'"
  shows "file_lines w' (metrics cfg) =
           file_lines w (metrics cfg) @ map (\<lambda>env. Doc (tick_record cfg env)) envs"
  using assms
proof (induction envs arbitrary: w)
  case Nil
  then show ?case by simp
next
  case (Cons env envs)
  from Cons.prems obtain u1 w1 where
    first: "record_metrics cfg env w = Returned u1 w1" and rest: "ticks cfg envs w1 = Returned u w'"
    by (auto split: outcome.splits)
  show ?case
    using Cons.IH [OF rest] record_metrics_returned [OF first] by simp
qed

lemma is_digit_digit_char: "n < 10 \<Longrightarrow> is_digit (digit_char n)"
  by (simp add: is_digit_def digit_char_def less_eq_char_def)

lemma is_digit_digits: "list_all is_digit (digits w n)"
  by (induction w arbitrary: n) (simp_all add: is_digit_digit_char)

lemma matches_digit_run:
  "length xs = w \<Longrightarrow> list_all is_digit xs \<Longrightarrow>
     matches (replicate w (CHR ''d'') @ ps) (xs @ cs) = matches ps cs"
  by (induction xs arbitrary: w) auto

lemma matches_digits:
  "matches (replicate w (CHR ''d'') @ ps) (digits w n @ cs) = matches ps cs"
  by (rule matches_digit_run) (simp_all add: is_digit_digits)

lemma matches_digits_end: "matches (replicate w (CHR ''d'')) (digits w n)"
  using matches_digits [of w "[]" n "[]"] by simp

lemma str_datetime_digits:
  assumes "valid_datetime d"
  shows "str_datetime d =
           digits 4 (year d) @ CHR ''-'' # digits 2 (month d) @ CHR ''-'' # digits 2 (day d) @
           CHR '' '' # digits 2 (hour d) @ CHR '':'' # digits 2 (minute d) @ CHR '':'' #
           digits 2 (second d) @
           (if microsecond d \<noteq> 0 then CHR ''.'' # digits 6 (microsecond d) else [])"
proof -
  have "zpad 4 (year d) = digits 4 (year d)" "zpad 2 (month d) = digits 2 (month d)"
    "zpad 2 (day d) = digits 2 (day d)" "zpad 2 (hour d) = digits 2 (hour d)"
    "zpad 2 (minute d) = digits 2 (minute d)" "zpad 2 (second d) = digits 2 (second d)"
    "zpad 6 (microsecond d) = digits 6 (microsecond d)"
    using assms by (simp_all add: valid_datetime_def zpad_digits)
  then show ?thesis
    by (simp add: str_datetime_def)
qed

lemma picture_date_time:
  "''dddd-dd-dd dd:dd:dd'' @ ps =
     replicate 4 (CHR ''d'') @ CHR ''-'' # replicate 2 (CHR ''d'') @ CHR ''-'' #
     replicate 2 (CHR ''d'') @ CHR '' '' # replicate 2 (CHR ''d'') @ CHR '':'' #
     replicate 2 (CHR ''d'') @ CHR '':'' # replicate 2 (CHR ''d'') @ ps"
  by (simp add: eval_nat_numeral)

lemma matches_date_time:
  assumes "valid_datetime d"
  shows "matches (''dddd-dd-dd dd:dd:dd'' @ ps)
           (digits 4 (year d) @ CHR ''-'' # digits 2 (month d) @ CHR ''-'' # digits 2 (day d) @
            CHR '' '' # digits 2 (hour d) @ CHR '':'' # digits 2 (minute d) @ CHR '':'' #
            digits 2 (second d) @ cs) = matches ps cs"
  unfolding picture_date_time by (simp add: matches_digits)

lemma python_str_datetime_str_datetime:
  assumes "valid_datetime d"
  shows "python_str_datetime (str_datetime d)"
proof (cases "microsecond d = 0")
  case True
  have "matches (''dddd-dd-dd dd:dd:dd'' @ []) (str_datetime d)"
    using True by (simp only: str_datetime_digits [OF assms] matches_date_time [OF assms])
      simp
  then show ?thesis
    by (simp add: python_str_datetime_def)
next
  case False
  have "matches (''dddd-dd-dd dd:dd:dd'' @ ''.dddddd'') (str_datetime d) =
          matches ''.dddddd'' (CHR ''.'' # digits 6 (microsecond d))"
    using False by (simp only: str_datetime_digits [OF assms] matches_date_time [OF assms])
      simp
  moreover have "''dddddd'' = replicate 6 (CHR ''d'')"
    by (simp add: eval_nat_numeral)
  ultimately have "matches (''dddd-dd-dd dd:dd:dd'' @ ''.dddddd'') (str_datetime d)"
    by (simp add: matches_digits_end)
  then show ?thesis
    by (simp add: python_str_datetime_def)
qed

lemma take_19_str_datetime:
  assumes "valid_datetime d"
  shows "take 19 (str_datetime d) =
           digits 4 (year d) @ CHR ''-'' # digits 2 (month d) @ CHR ''-'' # digits 2 (day d) @
           CHR '' '' # digits 2 (hour d) @ CHR '':'' # digits 2 (minute d) @ CHR '':'' #
           digits 2 (second d) @ []"
  by (simp add: str_datetime_digits [OF assms])

lemma picture_iso8601:
  "''dddd-dd-ddTdd:dd:dd'' =
     replicate 4 (CHR ''d'') @ CHR ''-'' # replicate 2 (CHR ''d'') @ CHR ''-'' #
     replicate 2 (CHR ''d'') @ ''Tdd:dd:dd''"
  by (simp add: eval_nat_numeral)

lemma not_iso8601_str_datetime:
  assumes "valid_datetime d"
  shows "\<not> iso8601_datetime (str_datetime d)"
proof -
  have space: "\<not> matches
         (replicate 4 (CHR ''d'') @ CHR ''-'' # replicate 2 (CHR ''d'') @ CHR ''-'' #
          replicate 2 (CHR ''d'') @ ''Tdd:dd:dd'')
         (digits 4 (year d) @ CHR ''-'' # digits 2 (month d) @ CHR ''-'' # digits 2 (day d) @
          CHR '' '' # rest)" for rest
    by (simp add: matches_digits)
  have "\<not> matches ''dddd-dd-ddTdd:dd:dd'' (take 19 (str_datetime d))"
    unfolding take_19_str_datetime [OF assms] picture_iso8601 by (rule space)
  then show ?thesis
    by (simp add: iso8601_datetime_def)
qed

lemma parse_line_tick_record: "\<exists>r. parse_line (Doc (tick_record cfg env)) = Some r"
  using parse_tick_record [of cfg env] by (auto simp: parse_line_def)

lemma parse_line_tick_records:
  "\<exists>rs. map parse_line (map (\<lambda>env. Doc (tick_record cfg env)) envs) = map Some rs"
proof (induction envs)
  case Nil
  then show ?case by simp
next
  case (Cons env envs)
  then obtain rs where rs: "map parse_line (map (\<lambda>env. Doc (tick_record cfg env)) envs) = map Some rs"
    by blast
  obtain r where "parse_line (Doc (tick_record cfg env)) = Some r"
    using parse_line_tick_record by blast
  then have "map parse_line (map (\<lambda>env. Doc (tick_record cfg env)) (env # envs)) = map Some (r # rs)"
    using rs by simp
  then show ?case
    by blast
qed

lemma sorted_str_datetime:
  assumes "list_all valid_datetime ds" and "sorted_wrt dt_le ds"
  shows "sorted (map str_datetime ds)"
  using assms
proof (induction ds)
  case Nil
  then show ?case by simp
next
  case (Cons d ds)
  have "str_datetime d \<le> str_datetime e" if "e \<in> set ds" for e
  proof (rule str_datetime_mono)
    show "valid_datetime d"
      using Cons.prems(1) by simp
    show "valid_datetime e"
      using Cons.prems(1) that by (simp add: list_all_iff)
    show "dt_le d e"
      using Cons.prems(2) that by simp
  qed
  moreover have "sorted (map str_datetime ds)"
    using Cons by simp
  ultimately show ?case
    by simp
qed

lemma digit_chars:
  "digit_char 0 = CHR ''0''" "digit_char 1 = CHR ''1''" "digit_char 2 = CHR ''2''"
  "digit_char 3 = CHR ''3''" "digit_char 4 = CHR ''4''" "digit_char 5 = CHR ''5''"
  "digit_char 6 = CHR ''6''" "digit_char 7 = CHR ''7''" "digit_char 8 = CHR ''8''"
  "digit_char 9 = CHR ''9''" "digit_char (Suc 0) = CHR ''1''"
  by code_simp+

lemma replicate_numeral_Cons: "replicate (numeral k) x = x # replicate (pred_numeral k) x"
  by (simp add: numeral_eq_Suc)

lemma str_datetime_instants:
  "str_datetime (instant 5 0 0) = ''2024-01-01 00:05:00''"
  "str_datetime (instant 6 0 250000) = ''2024-01-01 00:06:00.250000''"
  "str_datetime (instant 3 30 0) = ''2024-01-01 00:03:30''"
  "str_datetime (instant 7 30 123456) = ''2024-01-01 00:07:30.123456''"
  by (simp_all add: str_datetime_def instant_def zpad_def dec.simps digit_chars
      replicate_numeral_Cons)

lemma env_at_simps:
  "utcnow (env_at d) = d"
  "get_metric_statistics (env_at d) = (\<lambda>stat instance_id t. Inr [])"
  "sns_publish (env_at d) = (\<lambda>p. None)"
  "open_append (env_at d) = (\<lambda>p. None)"
  by (simp_all add: env_at_def example_env_def)

lemma record_metrics_env_at:
  "record_metrics example_config (env_at d) (log_world ls) =
     Returned () (log_world (ls @ [example_line (str_datetime d)]))"
  by (simp add: record_metrics_def gather_metrics_def record_instance_def record_stat_def
      example_config_simps env_at_simps log_world_def empty_world_def append_line_def
      example_line_def)

lemma record_metrics_env_at_first:
  "record_metrics example_config (env_at d) empty_world =
     Returned () (log_world [example_line (str_datetime d)])"
  by (simp add: record_metrics_def gather_metrics_def record_instance_def record_stat_def
      example_config_simps env_at_simps log_world_def empty_world_def append_line_def
      example_line_def)

lemma ticks_two_instants:
  "ticks example_config [env_at a, env_at b] empty_world =
     Returned () (log_world [example_line (str_datetime a), example_line (str_datetime b)])"
  by (simp add: record_metrics_env_at_first record_metrics_env_at)

lemma file_lines_log_world: "file_lines (log_world ls) ''metrics.json'' = ls"
  by (simp add: file_lines_def log_world_def)

lemma line_timestamp_example_line: "line_timestamp (example_line t) = t"
  by (simp add: line_timestamp_def parse_line_def parse_metric_record_def parse_entry_def
      example_line_def)

text \<open>
  Claim C7, as the code has it. From a log with no line, \<open>N\<close> ticks that all return leave
  a log of exactly \<open>N\<close> lines, each of which parses as a MetricRecord; the timestamps of
  the lines are, in the order of the ticks, what \<^verbatim>\<open>str\<close> makes of the readings of
  \<^verbatim>\<open>datetime.utcnow()\<close>. They are in non-decreasing order, as strings, when the readings
  are instants that Python can hold and are themselves in non-decreasing order.
\<close>

theorem ticks_log_lines:
  assumes "file_lines w (metrics cfg) = []" and "ticks cfg envs w = Returned u w'"
  shows "length (file_lines w' (metrics cfg)) = length envs \<and>
         (\<exists>rs. map parse_line (file_lines w' (metrics cfg)) = map Some rs) \<and>
         map line_timestamp (file_lines w' (metrics cfg)) =
           map (\<lambda>env. str_datetime (utcnow env)) envs \<and>
         (list_all valid_datetime (map utcnow envs) \<and> sorted_wrt dt_le (map utcnow envs) \<longrightarrow>
            sorted (map line_timestamp (file_lines w' (metrics cfg))))"
proof -
  have ls: "file_lines w' (metrics cfg) = map (\<lambda>env. Doc (tick_record cfg env)) envs"
    using ticks_returned [OF assms(2)] assms(1) by simp
  have n: "length (file_lines w' (metrics cfg)) = length envs"
    by (simp add: ls)
  have parsed: "\<exists>rs. map parse_line (file_lines w' (metrics cfg)) = map Some rs"
    unfolding ls by (rule parse_line_tick_records)
  have stamps: "map line_timestamp (file_lines w' (metrics cfg)) =
                  map (\<lambda>env. str_datetime (utcnow env)) envs"
    by (simp add: ls line_timestamp_tick_record comp_def)
  have ordered: "sorted (map line_timestamp (file_lines w' (metrics cfg)))"
    if "list_all valid_datetime (map utcnow envs) \<and> sorted_wrt dt_le (map utcnow envs)"
  proof -
    have "sorted (map str_datetime (map utcnow envs))"
      using that by (intro sorted_str_datetime) simp_all
    then show ?thesis
      by (simp add: stamps comp_def)
  qed
  show ?thesis
    using n parsed stamps ordered by blast
qed

text \<open>
  Two ticks a minute apart, the second at an instant with microseconds.
\<close>

theorem ticks_log_lines_witness:
  "file_lines empty_world (metrics example_config) = [] \<and>
   ticks example_config [env_at (instant 5 0 0), env_at (instant 6 0 250000)] empty_world =
     Returned () (log_world [example_line ''2024-01-01 00:05:00'',
                             example_line ''2024-01-01 00:06:00.250000'']) \<and>
   list_all valid_datetime [instant 5 0 0, instant 6 0 250000] \<and>
   sorted_wrt dt_le [instant 5 0 0, instant 6 0 250000] \<and>
   length (file_lines (log_world [example_line ''2024-01-01 00:05:00'',
                                  example_line ''2024-01-01 00:06:00.250000'']) ''metrics.json'') = 2 \<and>
   map line_timestamp
     (file_lines (log_world [example_line ''2024-01-01 00:05:00'',
                             example_line ''2024-01-01 00:06:00.250000'']) ''metrics.json'') =
     [''2024-01-01 00:05:00'', ''2024-01-01 00:06:00.250000''] \<and>
   sorted (map line_timestamp
     (file_lines (log_world [example_line ''2024-01-01 00:05:00'',
                             example_line ''2024-01-01 00:06:00.250000'']) ''metrics.json''))"
proof -
  let ?envs = "[env_at (instant 5 0 0), env_at (instant 6 0 250000)]"
  let ?w = "log_world [example_line ''2024-01-01 00:05:00'',
                       example_line ''2024-01-01 00:06:00.250000'']"
  have m: "metrics example_config = ''metrics.json''"
    by (simp add: example_config_simps)
  have empty: "file_lines empty_world (metrics example_config) = []"
    by (simp add: file_lines_def empty_world_def)
  have run: "ticks example_config ?envs empty_world = Returned () ?w"
    by (simp only: ticks_two_instants str_datetime_instants)
  have valid: "list_all valid_datetime [instant 5 0 0, instant 6 0 250000]"
    by (simp add: valid_datetime_def instant_def)
  have clock: "sorted_wrt dt_le [instant 5 0 0, instant 6 0 250000]"
    by (simp add: dt_le_def dt_key_def instant_def)
  have readings: "map utcnow ?envs = [instant 5 0 0, instant 6 0 250000]"
    by (simp add: env_at_simps)
  have renderings: "map (\<lambda>env. str_datetime (utcnow env)) ?envs =
                      [''2024-01-01 00:05:00'', ''2024-01-01 00:06:00.250000'']"
    by (simp add: env_at_simps str_datetime_instants)
  have n: "length ?envs = 2"
    by simp
  note log = ticks_log_lines [OF empty run, unfolded m readings renderings n]
  note count = log [THEN conjunct1]
  note stamps = log [THEN conjunct2, THEN conjunct2, THEN conjunct1]
  note ordered = log [THEN conjunct2, THEN conjunct2, THEN conjunct2, THEN mp,
      OF conjI [OF valid clock]]
  show ?thesis
    by (intro conjI empty run valid clock count stamps ordered)
qed

text \<open>
  Claim C7 as it is written fails twice. A tick whose write fails appends nothing and
  raises: one tick has run and the log has no line. And two ticks between which the
  clock of the machine was set back, from 00:05:00 to 00:03:30, both return and leave
  two lines whose timestamps decrease.
\<close>

theorem ticks_log_counterexample:
  "file_lines empty_world (metrics example_config) = [] \<and>
   ticks example_config [full_disk_env] empty_world =
     Raised (IOError ''No space left on device'') (write_failed_world ''No space left on device'') \<and>
   file_lines (write_failed_world ''No space left on device'') (metrics example_config) = [] \<and>
   ticks example_config [env_at (instant 5 0 0), env_at (instant 3 30 0)] empty_world =
     Returned () (log_world [example_line ''2024-01-01 00:05:00'',
                             example_line ''2024-01-01 00:03:30'']) \<and>
   map line_timestamp
     (file_lines (log_world [example_line ''2024-01-01 00:05:00'',
                             example_line ''2024-01-01 00:03:30'']) (metrics example_config)) =
     [''2024-01-01 00:05:00'', ''2024-01-01 00:03:30''] \<and>
   \<not> sorted [''2024-01-01 00:05:00'', ''2024-01-01 00:03:30'']"
proof -
  have empty: "file_lines empty_world (metrics example_config) = []"
    by (simp add: file_lines_def empty_world_def)
  have failed: "ticks example_config [full_disk_env] empty_world =
     Raised (IOError ''No space left on device'') (write_failed_world ''No space left on device'')"
    by (simp add: record_metrics_def gather_metrics_def record_instance_def record_stat_def
        example_config_simps full_disk_env_simps empty_world_def write_failed_world_def
        notify_stakeholders_def logging_error_def Let_def)
  have unwritten: "file_lines (write_failed_world ''No space left on device'') (metrics example_config) = []"
    by (simp add: file_lines_def write_failed_world_def empty_world_def)
  have run: "ticks example_config [env_at (instant 5 0 0), env_at (instant 3 30 0)] empty_world =
     Returned () (log_world [example_line ''2024-01-01 00:05:00'',
                             example_line ''2024-01-01 00:03:30''])"
    by (simp only: ticks_two_instants str_datetime_instants)
  have stamps: "map line_timestamp
     (file_lines (log_world [example_line ''2024-01-01 00:05:00'',
                             example_line ''2024-01-01 00:03:30'']) (metrics example_config)) =
     [''2024-01-01 00:05:00'', ''2024-01-01 00:03:30'']"
    by (simp add: example_config_simps file_lines_log_world line_timestamp_example_line)
  have decreasing: "\<not> sorted [''2024-01-01 00:05:00'', ''2024-01-01 00:03:30'']"
    by (simp add: less_char_def)
  show ?thesis
    by (intro conjI empty failed unwritten run stamps decreasing)
qed

lemma sample_env_at_simps:
  "utcnow (sample_env_at d) = d"
  "get_metric_statistics (sample_env_at d) = get_metric_statistics sample_env"
  "sns_publish (sample_env_at d) = (\<lambda>p. None)"
  "open_append (sample_env_at d) = (\<lambda>p. None)"
  by (simp_all add: sample_env_at_def sample_env_def example_env_def)

text \<open>
  Claim C8, as the code has it. The line that a returning tick appends is a JSON object
  with a string under \<open>timestamp\<close> and a list under \<open>metrics\<close> that parses by the schema
  of the specification, one entry per configured instance. The timestamp is what \<^verbatim>\<open>str\<close>
  makes of the reading of \<^verbatim>\<open>datetime.utcnow()\<close>: it has the form
  \<^verbatim>\<open>YYYY-MM-DD hh:mm:ss\<close> or \<^verbatim>\<open>YYYY-MM-DD hh:mm:ss.ffffff\<close>, with a space between the date and
  the time and no zone designator, which is not a representation of ISO 8601.
\<close>

theorem record_metrics_line_schema:
  assumes "record_metrics cfg env w = Returned u w'" and "valid_datetime (utcnow env)"
  shows "\<exists>ms r. file_lines w' (metrics cfg) =
                  file_lines w (metrics cfg) @
                  [Doc (JObj [(''timestamp'', JStr (str_datetime (utcnow env))),
                              (''metrics'', JArr ms)])] \<and>
                parse_entries ms = Some r \<and> map fst r = instances cfg \<and>
                python_str_datetime (str_datetime (utcnow env)) \<and>
                \<not> iso8601_datetime (str_datetime (utcnow env))"
proof -
  obtain r where r: "parse_entries (map (instance_entry cfg env) (instances cfg)) = Some r"
    "map fst r = instances cfg"
    using parse_instance_entries by blast
  have "file_lines w' (metrics cfg) =
          file_lines w (metrics cfg) @
          [Doc (JObj [(''timestamp'', JStr (str_datetime (utcnow env))),
                      (''metrics'', JArr (map (instance_entry cfg env) (instances cfg)))])]"
    using record_metrics_returned [OF assms(1)] by (simp add: tick_record_def)
  moreover have "python_str_datetime (str_datetime (utcnow env))"
    using assms(2) by (rule python_str_datetime_str_datetime)
  moreover have "\<not> iso8601_datetime (str_datetime (utcnow env))"
    using assms(2) by (rule not_iso8601_str_datetime)
  ultimately show ?thesis
    using r by blast
qed

text \<open>
  The tick on three stats, of which one has a value, at an instant with microseconds.
\<close>

theorem record_metrics_line_schema_witness:
  "record_metrics sample_config (sample_env_at (instant 7 30 123456)) empty_world =
     Returned () (final_world
       (record_metrics sample_config (sample_env_at (instant 7 30 123456)) empty_world)) \<and>
   valid_datetime (utcnow (sample_env_at (instant 7 30 123456))) \<and>
   (\<exists>ms r. file_lines (final_world
       (record_metrics sample_config (sample_env_at (instant 7 30 123456)) empty_world))
         ''metrics.json'' =
       [Doc (JObj [(''timestamp'', JStr ''2024-01-01 00:07:30.123456''), (''metrics'', JArr ms)])] \<and>
     parse_entries ms = Some r \<and> map fst r = [''i-1'']) \<and>
   file_lines (final_world
       (record_metrics sample_config (sample_env_at (instant 7 30 123456)) empty_world))
         ''metrics.json'' =
     [Doc (JObj [(''timestamp'', JStr ''2024-01-01 00:07:30.123456''),
                 (''metrics'', JArr [JObj [(''instance_id'', JStr ''i-1''),
                    (''stats'', JObj [(''CPUUtilization'', JNum 42), (''NetworkIn'', JNull),
                                      (''DiskReadOps'', JNull)])]])])] \<and>
   python_str_datetime ''2024-01-01 00:07:30.123456'' \<and>
   \<not> iso8601_datetime ''2024-01-01 00:07:30.123456''"
proof -
  let ?env = "sample_env_at (instant 7 30 123456)"
  let ?w = "final_world (record_metrics sample_config ?env empty_world)"
  have ret: "record_metrics sample_config ?env empty_world = Returned () ?w"
    by (simp add: record_metrics_def case_prod_beta sample_env_at_simps final_world_def)
  have valid: "valid_datetime (utcnow ?env)"
    by (simp add: sample_env_at_simps valid_datetime_def instant_def)
  have cfg: "metrics sample_config = ''metrics.json''" "instances sample_config = [''i-1'']"
    by (simp_all add: sample_config_def example_config_def)
  have before: "file_lines empty_world ''metrics.json'' = []"
    by (simp add: file_lines_def empty_world_def)
  have stamp: "str_datetime (utcnow ?env) = ''2024-01-01 00:07:30.123456''"
    by (simp only: sample_env_at_simps str_datetime_instants)
  note line = record_metrics_line_schema [OF ret valid, unfolded cfg before stamp append_Nil]
  from line have schema: "\<exists>ms r. file_lines ?w ''metrics.json'' =
       [Doc (JObj [(''timestamp'', JStr ''2024-01-01 00:07:30.123456''), (''metrics'', JArr ms)])] \<and>
     parse_entries ms = Some r \<and> map fst r = [''i-1'']"
    by (elim exE conjE, intro exI conjI)
  from line have python: "python_str_datetime ''2024-01-01 00:07:30.123456''"
    by (elim exE conjE)
  from line have iso: "\<not> iso8601_datetime ''2024-01-01 00:07:30.123456''"
    by (elim exE conjE)
  have written: "file_lines ?w ''metrics.json'' =
     [Doc (JObj [(''timestamp'', JStr ''2024-01-01 00:07:30.123456''),
                 (''metrics'', JArr [JObj [(''instance_id'', JStr ''i-1''),
                    (''stats'', JObj [(''CPUUtilization'', JNum 42), (''NetworkIn'', JNull),
                                      (''DiskReadOps'', JNull)])]])])]"
    by (simp add: record_metrics_def gather_metrics_def record_instance_def record_stat_def
        sample_config_def example_config_def sample_env_at_simps sample_env_simps
        str_datetime_instants final_world_def file_lines_def append_line_def empty_world_def
        notify_stakeholders_def logging_error_def Let_def)
  show ?thesis
    by (intro conjI ret valid schema written python iso)
qed

text \<open>
  Claim C8 as it is written fails on the timestamp. The tick at 00:05:00 of the first day
  of 2024 writes the timestamp \<^verbatim>\<open>2024-01-01 00:05:00\<close>, which is not a representation of
  ISO 8601; that of the same instant is \<^verbatim>\<open>2024-01-01T00:05:00\<close>.
\<close>

theorem record_metrics_timestamp_counterexample:
  "record_metrics example_config (env_at (instant 5 0 0)) empty_world =
     Returned () (log_world
       [Doc (JObj [(''timestamp'', JStr ''2024-01-01 00:05:00''),
                   (''metrics'', JArr [JObj [(''instance_id'', JStr ''i-1''),
                      (''stats'', JObj [(''CPUUtilization'', JNull)])]])])]) \<and>
   \<not> iso8601_datetime ''2024-01-01 00:05:00'' \<and>
   iso8601_datetime ''2024-01-01T00:05:00''"
proof -
  have tick: "record_metrics example_config (env_at (instant 5 0 0)) empty_world =
     Returned () (log_world
       [Doc (JObj [(''timestamp'', JStr ''2024-01-01 00:05:00''),
                   (''metrics'', JArr [JObj [(''instance_id'', JStr ''i-1''),
                      (''stats'', JObj [(''CPUUtilization'', JNull)])]])])])"
    by (simp add: record_metrics_env_at_first str_datetime_instants example_line_def)
  have space: "\<not> iso8601_datetime ''2024-01-01 00:05:00''"
    by (simp add: iso8601_datetime_def)
  have letter: "iso8601_datetime ''2024-01-01T00:05:00''"
    by (simp add: iso8601_datetime_def iso8601_fraction_def iso8601_zone_def is_digit_def
        less_eq_char_def)
  show ?thesis
    by (intro conjI tick space letter)
qed

end
